theory Spec2Isabelle
  imports Complex_Main "HOL-Library.Multiset" "HOL-Library.Product_Lexorder"
begin

section \<open>Conventions of the embedding\<close>

text \<open>
  The two optimizers, \<^verbatim>\<open>scripts/optimizers/delivery_router.py\<close> and
  \<^verbatim>\<open>scripts/optimizers/production_scheduler.py\<close>, are embedded function by function.

  \<^item> A Python \<^verbatim>\<open>float\<close> is a \<^typ>\<open>real\<close>: rounding, NaN, infinities and the range
    errors of floating point are idealised away. Under this idealisation the arguments of
    \<^verbatim>\<open>math.sqrt\<close> and \<^verbatim>\<open>math.asin\<close> in \<^verbatim>\<open>distance_to\<close> are always in their
    domains (lemma \<open>haversine_a_range\<close>), so that function has no error branch.
  \<^item> A Python \<^verbatim>\<open>int\<close> is an \<^typ>\<open>int\<close>, a \<^verbatim>\<open>str\<close> a \<^typ>\<open>string\<close> (a non-ASCII
    literal is written as its UTF-8 bytes).
  \<^item> A \<^verbatim>\<open>datetime\<close> is an \<^typ>\<open>int\<close>: the microseconds elapsed since
    \<^verbatim>\<open>datetime.min\<close>, 0001-01-01 00:00:00; the values Python can represent are those from 0
    to the last microsecond of the year 9999. A \<^verbatim>\<open>timedelta\<close> is an \<^typ>\<open>int\<close> number of
    microseconds, at most 999999999 days in magnitude. An operation whose result leaves these
    ranges raises \<^verbatim>\<open>OverflowError\<close>; a \<^verbatim>\<open>timedelta\<close> built from a float is rounded to the
    nearest microsecond, ties to even.
  \<^item> A dataclass is a record; the generated \<^verbatim>\<open>__eq__\<close> of a dataclass compares field by
    field, which is equality of records. Field names shared by several dataclasses
    (\<^verbatim>\<open>name\<close>, \<^verbatim>\<open>lat\<close>, \<^verbatim>\<open>vehicle_id\<close>, ...) are written qualified.
  \<^item> A \<^verbatim>\<open>dict\<close> whose iteration order matters is an association list in insertion order;
    the per-machine state dictionary of the scheduler is a map.
  \<^item> The exceptions the embedded code can raise are values of \<open>error\<close>.
\<close>

type_synonym datetime = int

type_synonym timedelta = int

datatype error = ZeroDivisionError | KeyError | OverflowError

section \<open>Dates and durations\<close>

text \<open>The microseconds of a minute, an hour and a day.\<close>

definition US_PER_MINUTE :: int where
  "US_PER_MINUTE = 60000000"

definition US_PER_HOUR :: int where
  "US_PER_HOUR = 3600000000"

definition US_PER_DAY :: int where
  "US_PER_DAY = 86400000000"

text \<open>
  \<^verbatim>\<open>datetime.max\<close> is 9999-12-31 23:59:59.999999, the last microsecond of day 3652059
  (\<^verbatim>\<open>date.max.toordinal()\<close>) counted from 0001-01-01.
\<close>

definition valid_datetime :: "datetime \<Rightarrow> bool" where
  "valid_datetime t \<longleftrightarrow> 0 \<le> t \<and> t < 3652059 * US_PER_DAY"

text \<open>
  \<^verbatim>\<open>timedelta.min\<close> is -999999999 days and \<^verbatim>\<open>timedelta.max\<close> is 999999999 days,
  23:59:59.999999.
\<close>

definition valid_timedelta :: "timedelta \<Rightarrow> bool" where
  "valid_timedelta d \<longleftrightarrow> - 999999999 * US_PER_DAY \<le> d \<and> d < 1000000000 * US_PER_DAY"

text \<open>Rounding to the nearest integer, ties to the even one, as \<^verbatim>\<open>timedelta\<close> rounds.\<close>

definition round_half_even :: "real \<Rightarrow> int" where
  "round_half_even x =
     (let f = \<lfloor>x\<rfloor>;
          d = x - real_of_int f
      in if d < 1 / 2 then f
         else if d > 1 / 2 then f + 1
         else if even f then f else f + 1)"

text \<open>\<^verbatim>\<open>timedelta(minutes=k)\<close> for an \<^verbatim>\<open>int\<close> \<open>k\<close>.\<close>

definition timedelta_minutes :: "int \<Rightarrow> error + timedelta" where
  "timedelta_minutes k =
     (if valid_timedelta (k * US_PER_MINUTE) then Inr (k * US_PER_MINUTE) else Inl OverflowError)"

text \<open>\<^verbatim>\<open>timedelta(hours=h)\<close> for a \<^verbatim>\<open>float\<close> \<open>h\<close>.\<close>

definition timedelta_hours :: "real \<Rightarrow> error + timedelta" where
  "timedelta_hours h =
     (let us = round_half_even (h * real_of_int US_PER_HOUR)
      in if valid_timedelta us then Inr us else Inl OverflowError)"

text \<open>\<^verbatim>\<open>datetime + timedelta\<close>.\<close>

definition datetime_add :: "datetime \<Rightarrow> timedelta \<Rightarrow> error + datetime" where
  "datetime_add t d = (if valid_datetime (t + d) then Inr (t + d) else Inl OverflowError)"

section \<open>Delivery router: data model\<close>

record Location =
  name :: string
  address :: string
  lat :: real
  lon :: real

definition radians :: "real \<Rightarrow> real" where
  "radians x = x * pi / 180"

text \<open>The quantity \<^verbatim>\<open>a\<close> of \<^verbatim>\<open>Location.distance_to\<close>, from the coordinates in radians.\<close>

definition haversine_a :: "real \<Rightarrow> real \<Rightarrow> real \<Rightarrow> real \<Rightarrow> real" where
  "haversine_a lat1 lon1 lat2 lon2 =
     (let dlat = lat2 - lat1;
          dlon = lon2 - lon1
      in (sin (dlat / 2))\<^sup>2 + cos lat1 * cos lat2 * (sin (dlon / 2))\<^sup>2)"

definition distance_to :: "Location \<Rightarrow> Location \<Rightarrow> real" where
  "distance_to self other =
     (if Location.lat self = 0 \<or> Location.lat other = 0 then 10.0
      else
        let R = 6371;
            lat1 = radians (Location.lat self); lon1 = radians (Location.lon self);
            lat2 = radians (Location.lat other); lon2 = radians (Location.lon other);
            a = haversine_a lat1 lon1 lat2 lon2;
            c = 2 * arcsin (sqrt a)
        in R * c)"

record Shipment =
  shipment_id :: string
  customer :: string
  address :: string
  weight_kg :: real
  pallets :: int
  time_window :: string
  lat :: real
  lon :: real

definition location :: "Shipment \<Rightarrow> Location" where
  "location self =
     \<lparr> Location.name = customer self, Location.address = Shipment.address self,
       Location.lat = Shipment.lat self, Location.lon = Shipment.lon self \<rparr>"

record Vehicle =
  vehicle_id :: string
  name :: string
  capacity_kg :: real
  capacity_pallets :: int
  cost_per_km :: real
  hourly_rate :: real
  fixed_cost :: real
  available :: bool

record Route =
  vehicle_id :: string
  stops :: "Shipment list"
  total_distance_km :: real
  total_weight_kg :: real
  total_pallets :: int
  estimated_time_hours :: real

text \<open>\<^verbatim>\<open>Route(vehicle_id=...)\<close>: the other fields take the defaults of the dataclass.\<close>

definition Route_init :: "string \<Rightarrow> Route" where
  "Route_init vid =
     \<lparr> Route.vehicle_id = vid, stops = [], total_distance_km = 0, total_weight_kg = 0,
       total_pallets = 0, estimated_time_hours = 0 \<rparr>"

record RoutePlan =
  date :: datetime
  routes :: "Route list"
  unassigned :: "Shipment list"

section \<open>Delivery router: configuration\<close>

definition utf8 :: "nat list \<Rightarrow> string" where
  "utf8 bs = map char_of bs"

definition DEPOT :: Location where
  "DEPOT =
     \<lparr> Location.name = utf8 [236, 132, 184, 236, 152, 129, 237, 153, 148, 237, 149, 153],
       Location.address = utf8 [234, 178, 189, 234, 184, 176, 235, 143, 132, 32,
                                237, 153, 148, 236, 132, 177, 236, 139, 156],
       Location.lat = 37.2, Location.lon = 127.0 \<rparr>"

definition Vehicle_init ::
  "string \<Rightarrow> string \<Rightarrow> real \<Rightarrow> int \<Rightarrow> real \<Rightarrow> real \<Rightarrow> real \<Rightarrow> Vehicle" where
  "Vehicle_init vid nm ckg cp cpk hr fc =
     \<lparr> Vehicle.vehicle_id = vid, Vehicle.name = nm, capacity_kg = ckg, capacity_pallets = cp,
       cost_per_km = cpk, hourly_rate = hr, fixed_cost = fc, available = True \<rparr>"

definition VEHICLES :: "(string \<times> Vehicle) list" where
  "VEHICLES =
     [(''V1'', Vehicle_init ''V1'' (utf8 [53, 237, 134, 164, 95, 49]) 5000 10 200 15000 50000),
      (''V2'', Vehicle_init ''V2'' (utf8 [53, 237, 134, 164, 95, 50]) 5000 10 200 15000 50000),
      (''V3'', Vehicle_init ''V3'' (utf8 [49, 49, 237, 134, 164]) 11000 20 350 18000 80000)]"

definition AVERAGE_SPEED :: real where
  "AVERAGE_SPEED = 40"

definition UNLOAD_TIME_MIN :: real where
  "UNLOAD_TIME_MIN = 15"

text \<open>
  The property \<^verbatim>\<open>Route.cost\<close>: the vehicle is looked up in the module-level table
  \<open>VEHICLES\<close>; a \<^verbatim>\<open>Vehicle\<close> object is always truthy, so \<^verbatim>\<open>not vehicle\<close> holds exactly
  when the lookup gave \<^verbatim>\<open>None\<close>.
\<close>

definition cost :: "Route \<Rightarrow> real" where
  "cost self =
     (case map_of VEHICLES (Route.vehicle_id self) of
        None \<Rightarrow> 0.0
      | Some vehicle \<Rightarrow>
          let fuel_cost = total_distance_km self * cost_per_km vehicle;
              labor_cost = estimated_time_hours self * hourly_rate vehicle;
              fixed_cost = (if stops self \<noteq> [] then Vehicle.fixed_cost vehicle else 0)
          in fuel_cost + labor_cost + fixed_cost)"

section \<open>Delivery router: the constructor\<close>

record DeliveryRouter =
  depot :: Location
  vehicles :: "(string \<times> Vehicle) list"
  shipments :: "Shipment list"

text \<open>
  \<^verbatim>\<open>DeliveryRouter.__init__\<close>: \<^verbatim>\<open>depot or DEPOT\<close> and \<^verbatim>\<open>vehicles or VEHICLES\<close>. A
  \<^verbatim>\<open>Location\<close> object is truthy, an empty dictionary is falsy.
\<close>

definition DeliveryRouter_init ::
  "Location option \<Rightarrow> (string \<times> Vehicle) list option \<Rightarrow> DeliveryRouter" where
  "DeliveryRouter_init depot_arg vehicles_arg =
     \<lparr> depot = (case depot_arg of None \<Rightarrow> DEPOT | Some d \<Rightarrow> d),
       vehicles = (case vehicles_arg of None \<Rightarrow> VEHICLES
                   | Some vs \<Rightarrow> if vs = [] then VEHICLES else vs),
       shipments = [] \<rparr>"

definition add_shipments :: "DeliveryRouter \<Rightarrow> Shipment list \<Rightarrow> DeliveryRouter" where
  "add_shipments self new = self\<lparr>shipments := shipments self @ new\<rparr>"

text \<open>
  Python's \<^verbatim>\<open>min(xs, key=k)\<close> on a non-empty iterable: the running best is replaced only
  when a later element has a strictly smaller key.
\<close>

fun py_min :: "('a \<Rightarrow> 'b::linorder) \<Rightarrow> 'a \<Rightarrow> 'a list \<Rightarrow> 'a" where
  "py_min key best [] = best"
| "py_min key best (x # xs) = py_min key (if key x < key best then x else best) xs"

text \<open>The feasibility filter at the head of the loop body of \<^verbatim>\<open>nearest_neighbor\<close>.\<close>

definition feasible :: "Vehicle \<Rightarrow> Route \<Rightarrow> Shipment list \<Rightarrow> Shipment list" where
  "feasible vehicle route remaining =
     filter (\<lambda>s. total_weight_kg route + weight_kg s \<le> capacity_kg vehicle \<and>
                 total_pallets route + pallets s \<le> capacity_pallets vehicle) remaining"

text \<open>The four updates of the route in one iteration, after \<^verbatim>\<open>nearest\<close> is chosen.\<close>

definition visit :: "Location \<Rightarrow> Shipment \<Rightarrow> Route \<Rightarrow> Route" where
  "visit current_location nearest route =
     route\<lparr> stops := stops route @ [nearest],
            total_weight_kg := total_weight_kg route + weight_kg nearest,
            total_pallets := total_pallets route + pallets nearest,
            total_distance_km :=
              total_distance_km route + distance_to current_location (location nearest) \<rparr>"

text \<open>
  The \<^verbatim>\<open>while remaining:\<close> loop of \<^verbatim>\<open>nearest_neighbor\<close>, on the state (route, remaining,
  current location); it returns the route and the last location.
\<close>

function nn_loop :: "Vehicle \<Rightarrow> Route \<Rightarrow> Shipment list \<Rightarrow> Location \<Rightarrow> Route \<times> Location" where
  "nn_loop vehicle route remaining current_location =
     (if remaining = [] then (route, current_location)
      else
        (case feasible vehicle route remaining of
           [] \<Rightarrow> (route, current_location)
         | f # fs \<Rightarrow>
             let nearest = py_min (\<lambda>s. distance_to current_location (location s)) f fs
             in nn_loop vehicle (visit current_location nearest route)
                  (remove1 nearest remaining) (location nearest)))"
  by pat_completeness auto
termination
proof (relation "measure (\<lambda>(vehicle, route, remaining, current_location). length remaining)")
  show "wf (measure (\<lambda>(vehicle, route, remaining, current_location). length remaining))"
    by simp
next
  fix vehicle :: Vehicle and route :: Route and remaining :: "Shipment list"
    and current_location :: Location and f fs nearest
  assume ne: "remaining \<noteq> []"
    and fe: "feasible vehicle route remaining = f # fs"
    and nr: "nearest = py_min (\<lambda>s. distance_to current_location (location s)) f fs"
  have "py_min key best xs \<in> set (best # xs)" for key :: "Shipment \<Rightarrow> real" and best xs
    by (induction xs arbitrary: best) auto
  then have "nearest \<in> set (feasible vehicle route remaining)"
    using fe nr by simp
  then have "nearest \<in> set remaining"
    unfolding feasible_def by simp
  then have "length (remove1 nearest remaining) < length remaining"
    by (simp add: length_remove1) (cases remaining; simp)
  then show "((vehicle, visit current_location nearest route, remove1 nearest remaining,
               location nearest), (vehicle, route, remaining, current_location))
             \<in> measure (\<lambda>(vehicle, route, remaining, current_location). length remaining)"
    by simp
qed

declare nn_loop.simps [simp del]

definition nearest_neighbor :: "DeliveryRouter \<Rightarrow> Shipment list \<Rightarrow> Vehicle \<Rightarrow> Route" where
  "nearest_neighbor self shipments_arg vehicle =
     (let route0 = Route_init (Vehicle.vehicle_id vehicle);
          (route, current_location) = nn_loop vehicle route0 shipments_arg (depot self)
      in if stops route \<noteq> [] then
           let route1 = route\<lparr>total_distance_km :=
                                total_distance_km route + distance_to current_location (depot self)\<rparr>
           in route1\<lparr>estimated_time_hours :=
                       total_distance_km route1 / AVERAGE_SPEED +
                       real (length (stops route1)) * UNLOAD_TIME_MIN / 60\<rparr>
         else route)"

text \<open>The sort key of \<^verbatim>\<open>create_plan\<close>; pairs are compared lexicographically, as tuples are.\<close>

definition shipment_key :: "Shipment \<Rightarrow> int \<times> real" where
  "shipment_key s =
     (if time_window s = ''AM'' then 0 else (if time_window s = ''PM'' then 1 else 2),
      - weight_kg s)"

text \<open>
  The inner loop of \<^verbatim>\<open>create_plan\<close> that removes the stops of a kept route from the pool:
  \<^verbatim>\<open>list.remove\<close> deletes the first equal element.
\<close>

definition remove_stops :: "Shipment list \<Rightarrow> Shipment list \<Rightarrow> Shipment list" where
  "remove_stops stops_arg remaining =
     fold (\<lambda>stop rem. if stop \<in> set rem then remove1 stop rem else rem) stops_arg remaining"

text \<open>The loop of \<^verbatim>\<open>create_plan\<close> over the sorted vehicles, on the state (routes, remaining).\<close>

fun plan_loop ::
  "DeliveryRouter \<Rightarrow> (string \<times> Vehicle) list \<Rightarrow> Route list \<Rightarrow> Shipment list
     \<Rightarrow> Route list \<times> Shipment list" where
  "plan_loop self [] routes_acc remaining = (routes_acc, remaining)"
| "plan_loop self ((vid, vehicle) # rest) routes_acc remaining =
     (if \<not> available vehicle \<or> remaining = [] then plan_loop self rest routes_acc remaining
      else
        let route = nearest_neighbor self remaining vehicle
        in if stops route \<noteq> [] then
             plan_loop self rest (routes_acc @ [route]) (remove_stops (stops route) remaining)
           else plan_loop self rest routes_acc remaining)"

definition create_plan :: "DeliveryRouter \<Rightarrow> datetime \<Rightarrow> RoutePlan" where
  "create_plan self target_date =
     (let sorted_shipments = sort_key shipment_key (shipments self);
          sorted_vehicles = sort_key (\<lambda>x. - capacity_kg (snd x)) (vehicles self);
          (routes_final, remaining) = plan_loop self sorted_vehicles [] sorted_shipments
      in \<lparr> date = target_date, routes = routes_final, unassigned = remaining \<rparr>)"

definition optimize_plan :: "DeliveryRouter \<Rightarrow> RoutePlan \<Rightarrow> RoutePlan" where
  "optimize_plan self plan = plan"

section \<open>Production scheduler: data model\<close>

text \<open>
  \<^verbatim>\<open>Order.__post_init__\<close> parses a \<^verbatim>\<open>due_date\<close> given as a string; here the field holds
  the parsed value.
\<close>

record Order =
  order_id :: string
  product_code :: string
  width_mm :: int
  quantity_rolls :: int
  due_date :: datetime
  color :: string
  priority :: int

record Machine =
  machine_id :: string
  name :: string
  width_min :: int
  width_max :: int
  speed_m_per_min :: real
  max_items_per_cycle :: int
  available :: bool
  current_setup :: "string option"

record ScheduleSlot =
  machine_id :: string
  orders :: "Order list"
  start_time :: datetime
  end_time :: datetime
  setup_time_min :: int

text \<open>\<^verbatim>\<open>(end_time - start_time).total_seconds() / 3600\<close>.\<close>

definition duration_hours :: "ScheduleSlot \<Rightarrow> real" where
  "duration_hours self = real_of_int (end_time self - start_time self) / 1000000 / 3600"

record Schedule =
  date :: datetime
  slots :: "ScheduleSlot list"
  unscheduled_orders :: "Order list"

definition add_slot :: "Schedule \<Rightarrow> ScheduleSlot \<Rightarrow> Schedule" where
  "add_slot self slot = self\<lparr>slots := slots self @ [slot]\<rparr>"

section \<open>Production scheduler: configuration\<close>

definition Machine_init :: "string \<Rightarrow> string \<Rightarrow> int \<Rightarrow> int \<Rightarrow> Machine" where
  "Machine_init mid nm wmin wmax =
     \<lparr> Machine.machine_id = mid, Machine.name = nm, width_min = wmin, width_max = wmax,
       speed_m_per_min = 30.0, max_items_per_cycle = 4, Machine.available = True,
       current_setup = None \<rparr>"

definition MACHINES :: "Machine list" where
  "MACHINES =
     [Machine_init ''M1'' (utf8 [49, 237, 152, 184, 234, 184, 176]) 400 600,
      Machine_init ''M2'' (utf8 [50, 237, 152, 184, 234, 184, 176]) 500 800,
      Machine_init ''M3'' (utf8 [51, 237, 152, 184, 234, 184, 176]) 700 1200]"

definition SETUP_TIME_MATRIX :: "((string \<times> string) \<times> int) list" where
  "SETUP_TIME_MATRIX =
     [((''CLEAR'', ''CLEAR''), 10),
      ((''CLEAR'', ''COLOR''), 30),
      ((''COLOR'', ''CLEAR''), 45),
      ((''COLOR'', ''COLOR''), 20)]"

definition WORK_START_HOUR :: int where
  "WORK_START_HOUR = 8"

definition WORK_END_HOUR :: int where
  "WORK_END_HOUR = 20"

definition HOURS_PER_DAY :: int where
  "HOURS_PER_DAY = WORK_END_HOUR - WORK_START_HOUR"

section \<open>Production scheduler: the constructor\<close>

record ProductionScheduler =
  machines :: "Machine list"
  orders :: "Order list"

text \<open>\<^verbatim>\<open>machines or MACHINES\<close>: an empty list is falsy.\<close>

definition ProductionScheduler_init :: "Machine list option \<Rightarrow> ProductionScheduler" where
  "ProductionScheduler_init machines_arg =
     \<lparr> machines = (case machines_arg of None \<Rightarrow> MACHINES
                   | Some ms \<Rightarrow> if ms = [] then MACHINES else ms),
       ProductionScheduler.orders = [] \<rparr>"

definition add_orders :: "ProductionScheduler \<Rightarrow> Order list \<Rightarrow> ProductionScheduler" where
  "add_orders self new =
     self\<lparr>ProductionScheduler.orders := ProductionScheduler.orders self @ new\<rparr>"

definition get_compatible_machines :: "ProductionScheduler \<Rightarrow> Order \<Rightarrow> Machine list" where
  "get_compatible_machines self order =
     filter (\<lambda>m. Machine.available m \<and> width_min m \<le> width_mm order \<and>
                 width_mm order \<le> width_max m) (machines self)"

definition calculate_setup_time :: "string \<Rightarrow> string \<Rightarrow> int" where
  "calculate_setup_time from_color to_color =
     (case map_of SETUP_TIME_MATRIX (from_color, to_color) of None \<Rightarrow> 30 | Some t \<Rightarrow> t)"

text \<open>
  \<^verbatim>\<open>estimate_production_time\<close>, in hours. The true division by the machine's speed raises
  \<^verbatim>\<open>ZeroDivisionError\<close> when the speed is zero.
\<close>

definition estimate_production_time :: "Order \<Rightarrow> Machine \<Rightarrow> error + real" where
  "estimate_production_time order machine =
     (let meters_per_roll = 1000;
          total_meters = quantity_rolls order * meters_per_roll
      in if speed_m_per_min machine = 0 then Inl ZeroDivisionError
         else
           let minutes = real_of_int total_meters / speed_m_per_min machine
           in Inr (minutes / 60))"

definition group_orders_by_width :: "ProductionScheduler \<Rightarrow> (int \<times> Order list) list" where
  "group_orders_by_width self =
     fold (\<lambda>order groups.
             let width_group = (width_mm order div 100) * 100
             in (case map_of groups width_group of
                   None \<Rightarrow> groups @ [(width_group, [order])]
                 | Some os \<Rightarrow> map (\<lambda>(k, v). if k = width_group then (k, v @ [order]) else (k, v)) groups))
          (ProductionScheduler.orders self) []"

text \<open>The sort key of \<^verbatim>\<open>sort_orders_for_scheduling\<close>; \<^verbatim>\<open>sorted\<close> is stable, as \<open>sort_key\<close> is.\<close>

definition order_key :: "Order \<Rightarrow> int \<times> datetime \<times> int" where
  "order_key ord = (- priority ord, due_date ord, if color ord = ''CLEAR'' then 0 else 1)"

definition sort_orders_for_scheduling :: "ProductionScheduler \<Rightarrow> Order list \<Rightarrow> Order list" where
  "sort_orders_for_scheduling self orders_arg = sort_key order_key orders_arg"

section \<open>Production scheduler: \<^verbatim>\<open>create_schedule\<close>\<close>

text \<open>One value of the dictionary \<^verbatim>\<open>machine_states\<close>.\<close>

record MachineState =
  current_time :: datetime
  current_color :: string
  orders_today :: "string list"

text \<open>
  \<^verbatim>\<open>datetime.combine(target_date, datetime.min.time().replace(hour=h))\<close>: midnight of the
  day of \<open>target_date\<close> plus \<open>h\<close> hours.
\<close>

definition combine_hour :: "datetime \<Rightarrow> int \<Rightarrow> datetime" where
  "combine_hour target_date h = (target_date div US_PER_DAY) * US_PER_DAY + h * US_PER_HOUR"

text \<open>
  The dictionary comprehension building \<^verbatim>\<open>machine_states\<close>: a later machine with the same
  id overwrites the entry of an earlier one. \<^verbatim>\<open>m.current_setup or "CLEAR"\<close> gives \<^verbatim>\<open>"CLEAR"\<close>
  for \<^verbatim>\<open>None\<close> and for the empty string.
\<close>

definition initial_state :: "datetime \<Rightarrow> Machine \<Rightarrow> MachineState" where
  "initial_state target_date m =
     \<lparr> current_time = combine_hour target_date WORK_START_HOUR,
       current_color = (case current_setup m of None \<Rightarrow> ''CLEAR''
                        | Some c \<Rightarrow> if c = [] then ''CLEAR'' else c),
       orders_today = [] \<rparr>"

definition initial_machine_states ::
  "ProductionScheduler \<Rightarrow> datetime \<Rightarrow> (string \<rightharpoonup> MachineState)" where
  "initial_machine_states self target_date =
     fold (\<lambda>m states. states(Machine.machine_id m \<mapsto> initial_state target_date m))
       (machines self) Map.empty"

text \<open>
  The loop \<^verbatim>\<open>for machine in compatible_machines\<close>. The pair (\<^verbatim>\<open>best_machine\<close>,
  \<^verbatim>\<open>best_setup_time\<close>) is \<open>None\<close> while it is (\<^verbatim>\<open>None\<close>, \<^verbatim>\<open>float('inf')\<close>), where every
  setup time is strictly smaller than the best. A missing key of \<^verbatim>\<open>machine_states\<close> raises
  \<^verbatim>\<open>KeyError\<close>.
\<close>

fun select_machine ::
  "(string \<rightharpoonup> MachineState) \<Rightarrow> Order \<Rightarrow> Machine list \<Rightarrow> (Machine \<times> int) option
     \<Rightarrow> error + (Machine \<times> int) option" where
  "select_machine machine_states order [] best = Inr best"
| "select_machine machine_states order (machine # rest) best =
     (case machine_states (Machine.machine_id machine) of
        None \<Rightarrow> Inl KeyError
      | Some state \<Rightarrow>
          let setup_time = calculate_setup_time (current_color state) (color order)
          in if int (length (orders_today state)) \<ge> max_items_per_cycle machine
             then select_machine machine_states order rest best
             else if (case best of None \<Rightarrow> True
                      | Some (best_machine, best_setup_time) \<Rightarrow> setup_time < best_setup_time)
             then select_machine machine_states order rest (Some (machine, setup_time))
             else select_machine machine_states order rest best)"

definition unschedule :: "Schedule \<Rightarrow> Order \<Rightarrow> Schedule" where
  "unschedule schedule order =
     schedule\<lparr>unscheduled_orders := unscheduled_orders schedule @ [order]\<rparr>"

text \<open>
  The body of the loop \<^verbatim>\<open>for order in sorted_orders\<close>, on the state (schedule,
  machine_states). The statements that can raise are taken in the order of the source: the
  production time, the start time, the end time (\<open>start_t\<close> and \<open>end_t\<close> are the variables
  \<^verbatim>\<open>start_time\<close> and \<^verbatim>\<open>end_time\<close>).
\<close>

definition schedule_order ::
  "ProductionScheduler \<Rightarrow> datetime \<Rightarrow> Schedule \<times> (string \<rightharpoonup> MachineState) \<Rightarrow> Order
     \<Rightarrow> error + Schedule \<times> (string \<rightharpoonup> MachineState)" where
  "schedule_order self target_date st order =
     (let (schedule, machine_states) = st;
          compatible_machines = get_compatible_machines self order
      in if compatible_machines = [] then Inr (unschedule schedule order, machine_states)
         else
           (case select_machine machine_states order compatible_machines None of
              Inl e \<Rightarrow> Inl e
            | Inr None \<Rightarrow> Inr (unschedule schedule order, machine_states)
            | Inr (Some (best_machine, best_setup_time)) \<Rightarrow>
                (case machine_states (Machine.machine_id best_machine) of
                   None \<Rightarrow> Inl KeyError
                 | Some state \<Rightarrow>
                     (case estimate_production_time order best_machine of
                        Inl e \<Rightarrow> Inl e
                      | Inr production_time \<Rightarrow>
                     (case timedelta_minutes best_setup_time of
                        Inl e \<Rightarrow> Inl e
                      | Inr setup_delta \<Rightarrow>
                     (case datetime_add (current_time state) setup_delta of
                        Inl e \<Rightarrow> Inl e
                      | Inr start_t \<Rightarrow>
                     (case timedelta_hours production_time of
                        Inl e \<Rightarrow> Inl e
                      | Inr production_delta \<Rightarrow>
                     (case datetime_add start_t production_delta of
                        Inl e \<Rightarrow> Inl e
                      | Inr end_t \<Rightarrow>
                          let work_end = combine_hour target_date WORK_END_HOUR
                          in if end_t > work_end
                             then Inr (unschedule schedule order, machine_states)
                             else
                               let slot = \<lparr> ScheduleSlot.machine_id = Machine.machine_id best_machine,
                                            ScheduleSlot.orders = [order],
                                            start_time = start_t, end_time = end_t,
                                            setup_time_min = best_setup_time \<rparr>
                               in Inr (add_slot schedule slot,
                                       machine_states(Machine.machine_id best_machine \<mapsto>
                                         state\<lparr> current_time := end_t,
                                                current_color := color order,
                                                orders_today :=
                                                  orders_today state @ [order_id order] \<rparr>))))))))))"

fun schedule_loop ::
  "ProductionScheduler \<Rightarrow> datetime \<Rightarrow> Schedule \<times> (string \<rightharpoonup> MachineState) \<Rightarrow> Order list
     \<Rightarrow> error + Schedule \<times> (string \<rightharpoonup> MachineState)" where
  "schedule_loop self target_date st [] = Inr st"
| "schedule_loop self target_date st (order # rest) =
     (case schedule_order self target_date st order of
        Inl e \<Rightarrow> Inl e
      | Inr st' \<Rightarrow> schedule_loop self target_date st' rest)"

definition create_schedule :: "ProductionScheduler \<Rightarrow> datetime \<Rightarrow> error + Schedule" where
  "create_schedule self target_date =
     (let schedule = \<lparr> Schedule.date = target_date, slots = [], unscheduled_orders = [] \<rparr>;
          machine_states = initial_machine_states self target_date;
          sorted_orders = sort_orders_for_scheduling self (ProductionScheduler.orders self)
      in (case schedule_loop self target_date (schedule, machine_states) sorted_orders of
            Inl e \<Rightarrow> Inl e
          | Inr (schedule', machine_states') \<Rightarrow> Inr schedule'))"

definition optimize_schedule :: "ProductionScheduler \<Rightarrow> Schedule \<Rightarrow> Schedule" where
  "optimize_schedule self schedule = schedule"

text \<open>
  The entry \<^verbatim>\<open>"unscheduled"\<close> of the dictionary returned by \<^verbatim>\<open>format_schedule_json\<close>: one
  triple (\<^verbatim>\<open>order_id\<close>, \<^verbatim>\<open>product_code\<close>, \<^verbatim>\<open>reason\<close>) for each unscheduled order.
\<close>

definition format_schedule_json_unscheduled :: "Schedule \<Rightarrow> (string \<times> string \<times> string) list" where
  "format_schedule_json_unscheduled schedule =
     map (\<lambda>ord. (order_id ord, product_code ord, ''capacity_exceeded''))
       (unscheduled_orders schedule)"

section \<open>Notions of the specification\<close>

text \<open>
  The definitions of this section follow the words of the specification, not the code; the
  theorems below compare the code with them.
\<close>

text \<open>The sentinel "unset" coordinate of the specification: both axes zero.\<close>

definition unset :: "Location \<Rightarrow> bool" where
  "unset l \<longleftrightarrow> Location.lat l = 0 \<and> Location.lon l = 0"

text \<open>The haversine function, and the great-circle distance on a sphere of radius 6371 km.\<close>

definition hav :: "real \<Rightarrow> real" where
  "hav \<theta> = (1 - cos \<theta>) / 2"

definition great_circle_km :: "Location \<Rightarrow> Location \<Rightarrow> real" where
  "great_circle_km a b =
     2 * 6371 *
     arcsin (sqrt (hav (radians (Location.lat b) - radians (Location.lat a)) +
                   cos (radians (Location.lat a)) * cos (radians (Location.lat b)) *
                   hav (radians (Location.lon b) - radians (Location.lon a))))"

definition contract_distance :: "Location \<Rightarrow> Location \<Rightarrow> real" where
  "contract_distance a b = (if unset a \<or> unset b then 10 else great_circle_km a b)"

text \<open>The cost of a route for a given vehicle, as the routing cost model words it.\<close>

definition cost_model :: "Route \<Rightarrow> Vehicle \<Rightarrow> real" where
  "cost_model route vehicle =
     total_distance_km route * cost_per_km vehicle +
     estimated_time_hours route * hourly_rate vehicle +
     (if stops route \<noteq> [] then fixed_cost vehicle else 0)"

text \<open>A route respects the capacities of a vehicle.\<close>

definition within_capacity :: "Vehicle \<Rightarrow> Route \<Rightarrow> bool" where
  "within_capacity vehicle route \<longleftrightarrow>
     total_weight_kg route \<le> capacity_kg vehicle \<and>
     total_pallets route \<le> capacity_pallets vehicle"

text \<open>The length of the walk that starts at \<open>start\<close> and visits the locations in order.\<close>

fun walk_km :: "Location \<Rightarrow> Location list \<Rightarrow> real" where
  "walk_km start [] = 0"
| "walk_km start (l # ls) = distance_to start l + walk_km l ls"


definition scheduled :: "Schedule \<Rightarrow> Order list" where
  "scheduled schedule = concat (map ScheduleSlot.orders (slots schedule))"

text \<open>
  The compatible machines that are still below their per-cycle item limit, each with the
  setup time from its current colour to the colour of the order, in iteration order.
\<close>

definition candidates ::
  "(string \<rightharpoonup> MachineState) \<Rightarrow> Order \<Rightarrow> Machine list \<Rightarrow> (Machine \<times> int) list" where
  "candidates machine_states order compatible_machines =
     concat (map (\<lambda>m. case machine_states (Machine.machine_id m) of
                         None \<Rightarrow> []
                       | Some state \<Rightarrow>
                           if int (length (orders_today state)) < max_items_per_cycle m
                           then [(m, calculate_setup_time (current_color state) (color order))]
                           else [])
                 compatible_machines)"

text \<open>The slots of one machine, in assignment order.\<close>

definition slots_of :: "string \<Rightarrow> Schedule \<Rightarrow> ScheduleSlot list" where
  "slots_of mid schedule = filter (\<lambda>s. ScheduleSlot.machine_id s = mid) (slots schedule)"

text \<open>The empty schedule and the state \<^verbatim>\<open>create_schedule\<close> starts its loop from.\<close>

definition start_state ::
  "ProductionScheduler \<Rightarrow> datetime \<Rightarrow> Schedule \<times> (string \<rightharpoonup> MachineState)" where
  "start_state self target_date =
     (\<lparr> Schedule.date = target_date, slots = [], unscheduled_orders = [] \<rparr>,
      initial_machine_states self target_date)"

subsection \<open>The routing scenario of the specification\<close>

text \<open>
  One vehicle of capacity 5000 kg and 10 pallets (the entry \<^verbatim>\<open>V1\<close> of the default fleet), a
  depot and three shipments of 2000 kg, all with zero coordinates. \<open>custom_vehicle\<close> is a vehicle of the same capacity whose id is not
  a key of \<open>VEHICLES\<close>.
\<close>

definition scenario_depot :: Location where
  "scenario_depot =
     \<lparr> Location.name = ''depot'', Location.address = ''origin'',
       Location.lat = 0, Location.lon = 0 \<rparr>"

definition scenario_shipment :: "string \<Rightarrow> Shipment" where
  "scenario_shipment sid =
     \<lparr> shipment_id = sid, customer = ''customer'', Shipment.address = ''address'',
       weight_kg = 2000, pallets = 1, time_window = ''ANY'',
       Shipment.lat = 0, Shipment.lon = 0 \<rparr>"

definition scenario_pool :: "Shipment list" where
  "scenario_pool = [scenario_shipment ''S1'', scenario_shipment ''S2'', scenario_shipment ''S3'']"

definition scenario_vehicle :: Vehicle where
  "scenario_vehicle =
     Vehicle_init ''V1'' (utf8 [53, 237, 134, 164, 95, 49]) 5000 10 200 15000 50000"

definition custom_vehicle :: Vehicle where
  "custom_vehicle = Vehicle_init ''T1'' ''van'' 5000 10 100 1000 500"

definition scenario_router :: "Vehicle \<Rightarrow> DeliveryRouter" where
  "scenario_router vehicle =
     add_shipments
       (DeliveryRouter_init (Some scenario_depot) (Some [(Vehicle.vehicle_id vehicle, vehicle)]))
       scenario_pool"

subsection \<open>Notions for the scheduling constructor\<close>

text \<open>Every machine of the list has an entry in the state dictionary.\<close>

definition covers :: "(string \<rightharpoonup> MachineState) \<Rightarrow> Machine list \<Rightarrow> bool" where
  "covers machine_states ms \<longleftrightarrow> (\<forall>m \<in> set ms. machine_states (Machine.machine_id m) \<noteq> None)"

text \<open>
  The production time of the specification, in hours:
  \<^verbatim>\<open>(order.quantity_rolls * meters_per_roll) / machine.speed_m_per_min / 60\<close> with 1000 metres
  per roll.
\<close>

definition production_hours :: "Order \<Rightarrow> Machine \<Rightarrow> real" where
  "production_hours order m =
     real_of_int (quantity_rolls order * 1000) / speed_m_per_min m / 60"

text \<open>
  The production time as the duration that is added to the start: the hours above in
  microseconds, rounded to the nearest microsecond.
\<close>

definition production_delta :: "Order \<Rightarrow> Machine \<Rightarrow> timedelta" where
  "production_delta order m =
     round_half_even (production_hours order m * real_of_int US_PER_HOUR)"

text \<open>
  The slot of the specification for an order on a machine with setup time \<open>t\<close> (minutes)
  and cursor \<open>state\<close>: start = cursor time + setup time, end = start + production time.
\<close>

definition slot_for :: "Order \<Rightarrow> Machine \<Rightarrow> int \<Rightarrow> MachineState \<Rightarrow> ScheduleSlot" where
  "slot_for order m t state =
     \<lparr> ScheduleSlot.machine_id = Machine.machine_id m,
       ScheduleSlot.orders = [order],
       start_time = current_time state + t * US_PER_MINUTE,
       end_time = current_time state + t * US_PER_MINUTE + production_delta order m,
       setup_time_min = t \<rparr>"

text \<open>
  The start and the end of that slot are dates Python can represent, and the setup time and
  the production time are durations it can represent: computing the slot raises no
  \<^verbatim>\<open>OverflowError\<close>.
\<close>

definition representable :: "Order \<Rightarrow> Machine \<Rightarrow> int \<Rightarrow> MachineState \<Rightarrow> bool" where
  "representable order m t state \<longleftrightarrow>
     valid_timedelta (t * US_PER_MINUTE) \<and>
     valid_datetime (start_time (slot_for order m t state)) \<and>
     valid_timedelta (production_delta order m) \<and>
     valid_datetime (end_time (slot_for order m t state))"

text \<open>The cursor of a machine after it took an order that ends at \<open>e\<close>.\<close>

definition advance :: "Order \<Rightarrow> datetime \<Rightarrow> MachineState \<Rightarrow> MachineState" where
  "advance order e state =
     state\<lparr> current_time := e, current_color := color order,
            orders_today := orders_today state @ [order_id order] \<rparr>"

text \<open>The end of the work day: 20:00 of the target date.\<close>

definition work_end :: "datetime \<Rightarrow> datetime" where
  "work_end target_date = combine_hour target_date WORK_END_HOUR"

text \<open>
  The slots of each machine follow one another, the cursor of a machine that has slots is at
  the end of its last slot, and no slot ends after the work day.
\<close>

definition timeline :: "datetime \<Rightarrow> Schedule \<times> (string \<rightharpoonup> MachineState) \<Rightarrow> bool" where
  "timeline target_date st \<longleftrightarrow>
     (\<forall>s \<in> set (slots (fst st)). end_time s \<le> work_end target_date) \<and>
     (\<forall>mid. successively (\<lambda>a b. end_time a < start_time b) (slots_of mid (fst st)) \<and>
            (slots_of mid (fst st) \<noteq> [] \<longrightarrow>
               (\<exists>state. snd st mid = Some state \<and>
                  current_time state = end_time (last (slots_of mid (fst st))))))"

subsection \<open>The scheduling scenario of the specification\<close>

text \<open>
  The default machines, with width ranges [400, 600], [500, 800] and [700, 1200], and orders
  of 3 rolls and width 650 mm, which only the second machine can take; \<open>narrow_order\<close> is
  an order no machine can take, \<open>long_order\<close> one whose production does not fit in a day,
  \<open>huge_order\<close> one of 10^9 rolls. The target date of the scenario is 0, the first day of
  the calendar, and a time of that day is given by its minute.
\<close>

definition scenario_order :: "string \<Rightarrow> Order" where
  "scenario_order oid =
     \<lparr> order_id = oid, product_code = ''PE-FILM-650'', width_mm = 650, quantity_rolls = 3,
       due_date = 0, color = ''CLEAR'', priority = 1 \<rparr>"

definition narrow_order :: Order where
  "narrow_order =
     \<lparr> order_id = ''N1'', product_code = ''PE-FILM-100'', width_mm = 100, quantity_rolls = 3,
       due_date = 0, color = ''CLEAR'', priority = 1 \<rparr>"

definition long_order :: Order where
  "long_order =
     \<lparr> order_id = ''L1'', product_code = ''PE-FILM-1000'', width_mm = 1000, quantity_rolls = 30,
       due_date = 0, color = ''CLEAR'', priority = 1 \<rparr>"

definition huge_order :: Order where
  "huge_order =
     \<lparr> order_id = ''G1'', product_code = ''PE-FILM-550'', width_mm = 550,
       quantity_rolls = 1000000000, due_date = 0, color = ''CLEAR'', priority = 1 \<rparr>"

definition scenario_orders :: "Order list" where
  "scenario_orders =
     [scenario_order ''O1'', scenario_order ''O2'', scenario_order ''O3'', scenario_order ''O4'',
      scenario_order ''O5'', narrow_order, long_order]"

definition scenario_scheduler :: ProductionScheduler where
  "scenario_scheduler = add_orders (ProductionScheduler_init None) scenario_orders"

text \<open>The slot of the scenario on the second machine that starts at minute \<open>s\<close> of the day.\<close>

definition at_minute :: "int \<Rightarrow> datetime" where
  "at_minute k = k * US_PER_MINUTE"

definition scenario_slot :: "string \<Rightarrow> int \<Rightarrow> ScheduleSlot" where
  "scenario_slot oid s =
     \<lparr> ScheduleSlot.machine_id = ''M2'', ScheduleSlot.orders = [scenario_order oid],
       start_time = at_minute s, end_time = at_minute (s + 100), setup_time_min = 10 \<rparr>"

subsection \<open>The selection rule of the specification\<close>

text \<open>
  The entry at index \<open>i\<close> of a list of candidates has the minimal setup time, and every entry
  before it has a strictly larger one: it is the first minimum in iteration order.
\<close>

definition first_minimum :: "(Machine \<times> int) list \<Rightarrow> nat \<Rightarrow> bool" where
  "first_minimum cs i \<longleftrightarrow>
     i < length cs \<and>
     (\<forall>c \<in> set cs. snd (cs ! i) \<le> snd c) \<and>
     (\<forall>j < i. snd (cs ! i) < snd (cs ! j))"

text \<open>
  The state in which \<^verbatim>\<open>create_schedule\<close> processes an order: the sorted orders are \<open>pre\<close>,
  then the order, then \<open>post\<close>, and the loop has gone through \<open>pre\<close> without an error.
\<close>

definition reaches ::
  "ProductionScheduler \<Rightarrow> datetime \<Rightarrow> Order list \<Rightarrow> Order \<Rightarrow> Order list
     \<Rightarrow> Schedule \<times> (string \<rightharpoonup> MachineState) \<Rightarrow> bool" where
  "reaches self target_date pre order post st \<longleftrightarrow>
     sort_orders_for_scheduling self (ProductionScheduler.orders self) = pre @ order # post \<and>
     schedule_loop self target_date (start_state self target_date) pre = Inr st"

text \<open>
  An order of 3 rolls and width 550 mm, which the first and the second machine can take, and
  the schedulers that hold this order alone and \<open>long_order\<close> alone.
\<close>

definition shared_order :: Order where
  "shared_order =
     \<lparr> order_id = ''H1'', product_code = ''PE-FILM-550'', width_mm = 550, quantity_rolls = 3,
       due_date = 0, color = ''CLEAR'', priority = 1 \<rparr>"

definition single_scheduler :: "Order \<Rightarrow> ProductionScheduler" where
  "single_scheduler ord = add_orders (ProductionScheduler_init None) [ord]"

section \<open>The geospatial cost model\<close>

lemma hav_half: "hav \<theta> = (sin (\<theta> / 2))\<^sup>2"
  using cos_double_sin [of "\<theta> / 2"] by (simp add: hav_def)

lemma hav_sum: "(sin (q - p))\<^sup>2 + cos (2 * p) * cos (2 * q) = (cos (p + q))\<^sup>2" for p q :: real
  unfolding cos_double sin_diff cos_add
  by (simp add: power2_eq_square algebra_simps)

text \<open>The argument of the square root is in \<open>[0, 1]\<close>: no domain error in \<^verbatim>\<open>distance_to\<close>.\<close>

lemma haversine_a_range:
  "0 \<le> haversine_a lat1 lon1 lat2 lon2 \<and> haversine_a lat1 lon1 lat2 lon2 \<le> 1"
proof -
  define u where "u = (sin ((lon2 - lon1) / 2))\<^sup>2"
  define A where "A = (sin ((lat2 - lat1) / 2))\<^sup>2"
  define B where "B = (cos ((lat1 + lat2) / 2))\<^sup>2"
  have u: "0 \<le> u" "u \<le> 1" unfolding u_def by (simp_all add: abs_square_le_1)
  have A: "0 \<le> A" "A \<le> 1" unfolding A_def by (simp_all add: abs_square_le_1)
  have B: "0 \<le> B" "B \<le> 1" unfolding B_def by (simp_all add: abs_square_le_1)
  have "A + cos lat1 * cos lat2 = B"
    using hav_sum [of "lat2 / 2" "lat1 / 2"] unfolding A_def B_def
    by (simp add: diff_divide_distrib add_divide_distrib)
  then have c: "cos lat1 * cos lat2 = B - A" by simp
  have eq: "haversine_a lat1 lon1 lat2 lon2 = (1 - u) * A + u * B"
    unfolding haversine_a_def Let_def c u_def [symmetric] A_def [symmetric]
    by (simp add: algebra_simps)
  have "0 \<le> (1 - u) * A + u * B" using u A B by simp
  moreover have "(1 - u) * A + u * B \<le> (1 - u) * 1 + u * 1"
    using u A B by (intro add_mono mult_left_mono) simp_all
  ultimately show ?thesis unfolding eq by simp
qed

lemma distance_to_great_circle:
  "Location.lat a \<noteq> 0 \<Longrightarrow> Location.lat b \<noteq> 0 \<Longrightarrow> distance_to a b = great_circle_km a b"
  by (simp add: distance_to_def great_circle_km_def haversine_a_def hav_half Let_def)

lemma distance_to_commute: "distance_to a b = distance_to b a"
proof -
  have s: "(sin ((x - y) / 2))\<^sup>2 = (sin ((y - x) / 2))\<^sup>2" for x y :: real
  proof -
    have "(x - y) / 2 = - ((y - x) / 2)" by argo
    then show ?thesis by (simp only: sin_minus power2_minus)
  qed
  show ?thesis
    unfolding distance_to_def haversine_a_def Let_def
    by (simp add: s [of "radians (Location.lat a)"] s [of "radians (Location.lon a)"]
          mult.commute disj_commute)
qed

lemma distance_to_self: "Location.lat a \<noteq> 0 \<Longrightarrow> distance_to a a = 0"
  unfolding distance_to_def haversine_a_def Let_def by simp

text \<open>
  The code agrees with the contract of the specification when one of the locations is unset
  (both axes zero) and when both latitudes are non-zero.
\<close>

lemma distance_to_agrees:
  "unset a \<or> unset b \<or> (Location.lat a \<noteq> 0 \<and> Location.lat b \<noteq> 0) \<Longrightarrow>
     distance_to a b = contract_distance a b"
  using distance_to_great_circle [of a b]
  by (auto simp: contract_distance_def unset_def distance_to_def)

text \<open>
  Claim C3. The contract gives the fallback 10.0 when a location is the unset sentinel, both
  axes zero, and the great-circle distance otherwise. The guard of \<^verbatim>\<open>distance_to\<close> tests the
  latitude alone, although its comment reserves the fallback for missing coordinates: the
  location of latitude 0 and longitude 100, on the equator, is not the sentinel, the contract
  gives its distance to itself as the great-circle distance 0, and the code returns 10.0.
\<close>

theorem distance_to_equator_fallback:
  "\<not> unset \<lparr>Location.name = ''E'', Location.address = ''equator'',
             Location.lat = 0, Location.lon = 100\<rparr>
   \<and> distance_to
        \<lparr>Location.name = ''E'', Location.address = ''equator'', Location.lat = 0, Location.lon = 100\<rparr>
        \<lparr>Location.name = ''E'', Location.address = ''equator'', Location.lat = 0, Location.lon = 100\<rparr>
       = 10
   \<and> contract_distance
        \<lparr>Location.name = ''E'', Location.address = ''equator'', Location.lat = 0, Location.lon = 100\<rparr>
        \<lparr>Location.name = ''E'', Location.address = ''equator'', Location.lat = 0, Location.lon = 100\<rparr>
       = 0"
  by (simp add: unset_def distance_to_def contract_distance_def great_circle_km_def hav_def)

text \<open>
  Claim C9. The distance is symmetric for every pair of locations (lemma
  \<open>distance_to_commute\<close>) and the distance of a location of non-zero latitude to itself is 0
  (lemma \<open>distance_to_self\<close>). For a location on the equator that has coordinates, latitude 0
  and longitude 127, the code returns 10.0 as the distance to itself, not 0: the same guard on
  the latitude alone.
\<close>

theorem distance_to_equator_self:
  "\<not> unset \<lparr>Location.name = ''Q'', Location.address = ''equator'',
             Location.lat = 0, Location.lon = 127\<rparr>
   \<and> distance_to
        \<lparr>Location.name = ''Q'', Location.address = ''equator'', Location.lat = 0, Location.lon = 127\<rparr>
        \<lparr>Location.name = ''Q'', Location.address = ''equator'', Location.lat = 0, Location.lon = 127\<rparr>
       = 10
   \<and> (10 :: real) \<noteq> 0"
  by (simp add: unset_def distance_to_def)

section \<open>The nearest-neighbour builder\<close>

lemma visit_simps [simp]:
  "Route.vehicle_id (visit cur n r) = Route.vehicle_id r"
  "stops (visit cur n r) = stops r @ [n]"
  "total_weight_kg (visit cur n r) = total_weight_kg r + weight_kg n"
  "total_pallets (visit cur n r) = total_pallets r + pallets n"
  "total_distance_km (visit cur n r) = total_distance_km r + distance_to cur (location n)"
  "estimated_time_hours (visit cur n r) = estimated_time_hours r"
  by (simp_all add: visit_def)

lemma py_min_in: "py_min key best xs \<in> set (best # xs)"
  by (induction xs arbitrary: best) auto

lemma py_min_le:
  "key (py_min key best xs) \<le> key best \<and> (\<forall>x \<in> set xs. key (py_min key best xs) \<le> key x)"
proof (induction xs arbitrary: best)
  case Nil
  then show ?case by simp
next
  case (Cons a xs)
  show ?case
    using Cons.IH [of "if key a < key best then a else best"] by (auto split: if_splits)
qed

text \<open>The result is the first element with the minimal key: every element before it has
  a strictly larger key.\<close>

lemma py_min_first:
  "\<exists>i < length (best # xs). (best # xs) ! i = py_min key best xs \<and>
      (\<forall>j < i. key (py_min key best xs) < key ((best # xs) ! j))"
proof (induction xs arbitrary: best)
  case Nil
  then show ?case by simp
next
  case (Cons a xs)
  let ?b = "if key a < key best then a else best"
  let ?m = "py_min key ?b xs"
  from Cons.IH [of ?b] obtain i where i: "i < length (?b # xs)" "(?b # xs) ! i = ?m"
    and less: "\<forall>j < i. key ?m < key ((?b # xs) ! j)" by blast
  have le: "key ?m \<le> key ?b" using py_min_le [of key ?b xs] by simp
  show ?case
  proof (cases i)
    case 0
    then have m: "?m = ?b" using i by simp
    show ?thesis
    proof (cases "key a < key best")
      case True
      then have "(best # a # xs) ! 1 = py_min key best (a # xs)" using m by simp
      moreover have "\<forall>j < (1::nat). key (py_min key best (a # xs)) < key ((best # a # xs) ! j)"
        using True m by simp
      ultimately show ?thesis by (intro exI [of _ 1]) simp
    next
      case False
      then have "(best # a # xs) ! 0 = py_min key best (a # xs)" using m by simp
      then show ?thesis by (intro exI [of _ 0]) simp
    qed
  next
    case (Suc k)
    have mk: "(best # a # xs) ! Suc (Suc k) = py_min key best (a # xs)"
      using i Suc by simp
    have "key (py_min key best (a # xs)) < key ((best # a # xs) ! j)" if "j < Suc (Suc k)" for j
    proof (cases j)
      case 0
      have "key ?m < key ?b" using less Suc by auto
      then show ?thesis using 0 by (auto split: if_splits)
    next
      case (Suc j')
      show ?thesis
      proof (cases j')
        case 0
        have "key ?m < key ?b" using less \<open>i = Suc k\<close> by auto
        then show ?thesis using 0 Suc by (auto split: if_splits)
      next
        case (Suc j'')
        then have "j'' < k" using that \<open>j = Suc j'\<close> by simp
        then have "key ?m < key ((?b # xs) ! Suc j'')" using less \<open>i = Suc k\<close> by auto
        then show ?thesis using Suc \<open>j = Suc j'\<close> by simp
      qed
    qed
    then show ?thesis using mk i Suc by (intro exI [of _ "Suc (Suc k)"]) simp
  qed
qed

lemma nn_loop_stop:
  "feasible vehicle route remaining = [] \<Longrightarrow>
     nn_loop vehicle route remaining current_location = (route, current_location)"
  by (subst nn_loop.simps) simp

lemma nn_loop_step:
  "feasible vehicle route remaining = f # fs \<Longrightarrow>
   nearest = py_min (\<lambda>s. distance_to current_location (location s)) f fs \<Longrightarrow>
     nn_loop vehicle route remaining current_location =
       nn_loop vehicle (visit current_location nearest route)
         (remove1 nearest remaining) (location nearest)"
  by (subst nn_loop.simps) (auto simp: feasible_def Let_def)

lemma nn_loop_cases [case_names stop step]:
  assumes "\<And>vehicle route remaining current_location.
             feasible vehicle route remaining = [] \<Longrightarrow> P vehicle route remaining current_location"
    and "\<And>vehicle route remaining current_location f fs nearest.
             feasible vehicle route remaining = f # fs \<Longrightarrow>
             nearest = py_min (\<lambda>s. distance_to current_location (location s)) f fs \<Longrightarrow>
             P vehicle (visit current_location nearest route) (remove1 nearest remaining)
               (location nearest) \<Longrightarrow>
             P vehicle route remaining current_location"
  shows "P vehicle route remaining current_location"
proof (induction vehicle route remaining current_location rule: nn_loop.induct)
  case (1 vehicle route remaining current_location)
  show ?case
  proof (cases "feasible vehicle route remaining")
    case Nil
    then show ?thesis by (rule assms(1))
  next
    case (Cons f fs)
    then have "remaining \<noteq> []" by (auto simp: feasible_def)
    from 1 [OF this Cons refl] Cons show ?thesis by (intro assms(2) [OF Cons refl])
  qed
qed

lemma nn_loop_vehicle_id:
  "Route.vehicle_id (fst (nn_loop vehicle route remaining current_location)) = Route.vehicle_id route"
proof (induction vehicle route remaining current_location rule: nn_loop_cases)
  case (stop vehicle route remaining current_location)
  then show ?case by (simp add: nn_loop_stop)
next
  case (step vehicle route remaining current_location f fs nearest)
  then show ?case by (simp add: nn_loop_step [OF step(1,2)])
qed

lemma nn_loop_capacity:
  "stops route \<noteq> [] \<longrightarrow> within_capacity vehicle route \<Longrightarrow>
   stops (fst (nn_loop vehicle route remaining current_location)) \<noteq> [] \<longrightarrow>
     within_capacity vehicle (fst (nn_loop vehicle route remaining current_location))"
proof (induction vehicle route remaining current_location rule: nn_loop_cases)
  case (stop vehicle route remaining current_location)
  then show ?case by (simp add: nn_loop_stop)
next
  case (step vehicle route remaining current_location f fs nearest)
  have "nearest \<in> set (feasible vehicle route remaining)"
    using step(1,2) py_min_in [of _ f fs] by simp
  then have "within_capacity vehicle (visit current_location nearest route)"
    by (simp add: feasible_def within_capacity_def)
  with step(3) show ?case by (simp add: nn_loop_step [OF step(1,2)])
qed

text \<open>What the loop appends: a sub-multiset of the pool, walked from the current location.\<close>

lemma nn_loop_added:
  "\<exists>added. stops (fst (nn_loop vehicle route remaining current_location)) = stops route @ added \<and>
      mset added \<subseteq># mset remaining \<and>
      total_distance_km (fst (nn_loop vehicle route remaining current_location)) =
        total_distance_km route + walk_km current_location (map location added) \<and>
      snd (nn_loop vehicle route remaining current_location) =
        last (current_location # map location added) \<and>
      estimated_time_hours (fst (nn_loop vehicle route remaining current_location)) =
        estimated_time_hours route \<and>
      (added = [] \<longrightarrow> fst (nn_loop vehicle route remaining current_location) = route)"
proof (induction vehicle route remaining current_location rule: nn_loop_cases)
  case (stop vehicle route remaining current_location)
  then show ?case by (simp add: nn_loop_stop)
next
  case (step vehicle route remaining current_location f fs nearest)
  let ?res = "nn_loop vehicle (visit current_location nearest route)
                (remove1 nearest remaining) (location nearest)"
  have eq: "nn_loop vehicle route remaining current_location = ?res"
    by (rule nn_loop_step [OF step(1,2)])
  have "nearest \<in> set (feasible vehicle route remaining)"
    using step(1,2) py_min_in [of _ f fs] by simp
  then have mem: "nearest \<in> set remaining" by (simp add: feasible_def)
  from step(3) obtain added where
    a: "stops (fst ?res) = stops (visit current_location nearest route) @ added"
    and b: "mset added \<subseteq># mset (remove1 nearest remaining)"
    and c: "total_distance_km (fst ?res) =
              total_distance_km (visit current_location nearest route) +
              walk_km (location nearest) (map location added)"
    and d: "snd ?res = last (location nearest # map location added)"
    and e: "estimated_time_hours (fst ?res) =
              estimated_time_hours (visit current_location nearest route)"
    by blast
  have "mset (nearest # added) \<subseteq># mset remaining"
    using b mem by (simp add: insert_subset_eq_iff)
  moreover have "stops (fst ?res) = stops route @ nearest # added"
    using a by simp
  moreover have "total_distance_km (fst ?res) =
      total_distance_km route + walk_km current_location (map location (nearest # added))"
    using c by simp
  moreover have "snd ?res = last (current_location # map location (nearest # added))"
    using d by simp
  moreover have "estimated_time_hours (fst ?res) = estimated_time_hours route"
    using e by simp
  ultimately show ?case unfolding eq by blast
qed


text \<open>The route returned by \<^verbatim>\<open>nearest_neighbor\<close>, from the result of its loop.\<close>

lemma nearest_neighbor_unfold:
  assumes "nn_loop vehicle (Route_init (Vehicle.vehicle_id vehicle)) pool (depot self) = (route, cur)"
  shows "nearest_neighbor self pool vehicle =
           (if stops route \<noteq> [] then
              route\<lparr> total_distance_km := total_distance_km route + distance_to cur (depot self),
                     estimated_time_hours :=
                       (total_distance_km route + distance_to cur (depot self)) / 40 +
                       real (length (stops route)) * 15 / 60 \<rparr>
            else route)"
  using assms
  by (simp add: nearest_neighbor_def Let_def AVERAGE_SPEED_def UNLOAD_TIME_MIN_def)

lemma nearest_neighbor_fields:
  "Route.vehicle_id (nearest_neighbor self pool vehicle) = Vehicle.vehicle_id vehicle"
  "stops (nearest_neighbor self pool vehicle) =
     stops (fst (nn_loop vehicle (Route_init (Vehicle.vehicle_id vehicle)) pool (depot self)))"
  "total_weight_kg (nearest_neighbor self pool vehicle) =
     total_weight_kg (fst (nn_loop vehicle (Route_init (Vehicle.vehicle_id vehicle)) pool (depot self)))"
  "total_pallets (nearest_neighbor self pool vehicle) =
     total_pallets (fst (nn_loop vehicle (Route_init (Vehicle.vehicle_id vehicle)) pool (depot self)))"
proof -
  obtain route cur where
    l: "nn_loop vehicle (Route_init (Vehicle.vehicle_id vehicle)) pool (depot self) = (route, cur)"
    by (cases "nn_loop vehicle (Route_init (Vehicle.vehicle_id vehicle)) pool (depot self)")
  have v: "Route.vehicle_id route = Vehicle.vehicle_id vehicle"
    using nn_loop_vehicle_id [of vehicle "Route_init (Vehicle.vehicle_id vehicle)" pool "depot self"] l
    by (simp add: Route_init_def)
  show "Route.vehicle_id (nearest_neighbor self pool vehicle) = Vehicle.vehicle_id vehicle"
    using v by (simp add: nearest_neighbor_unfold [OF l])
  show "stops (nearest_neighbor self pool vehicle) =
     stops (fst (nn_loop vehicle (Route_init (Vehicle.vehicle_id vehicle)) pool (depot self)))"
    by (simp add: nearest_neighbor_unfold [OF l] l)
  show "total_weight_kg (nearest_neighbor self pool vehicle) =
     total_weight_kg (fst (nn_loop vehicle (Route_init (Vehicle.vehicle_id vehicle)) pool (depot self)))"
    by (simp add: nearest_neighbor_unfold [OF l] l)
  show "total_pallets (nearest_neighbor self pool vehicle) =
     total_pallets (fst (nn_loop vehicle (Route_init (Vehicle.vehicle_id vehicle)) pool (depot self)))"
    by (simp add: nearest_neighbor_unfold [OF l] l)
qed


lemma nearest_neighbor_empty:
  assumes "stops (nearest_neighbor self pool vehicle) = []"
  shows "nearest_neighbor self pool vehicle = Route_init (Vehicle.vehicle_id vehicle)"
proof -
  obtain route cur where
    l: "nn_loop vehicle (Route_init (Vehicle.vehicle_id vehicle)) pool (depot self) = (route, cur)"
    by (cases "nn_loop vehicle (Route_init (Vehicle.vehicle_id vehicle)) pool (depot self)")
  from assms have e: "stops route = []" by (simp add: nearest_neighbor_fields l)
  from nn_loop_added [of vehicle "Route_init (Vehicle.vehicle_id vehicle)" pool "depot self"]
  obtain added where "stops route = stops (Route_init (Vehicle.vehicle_id vehicle)) @ added"
    and "added = [] \<longrightarrow> route = Route_init (Vehicle.vehicle_id vehicle)"
    using l by auto
  with e have "route = Route_init (Vehicle.vehicle_id vehicle)" by simp
  then show ?thesis using e by (simp add: nearest_neighbor_unfold [OF l])
qed

section \<open>The routing scenario\<close>

lemma scenario_shipment_eq [simp]: "scenario_shipment a = scenario_shipment b \<longleftrightarrow> a = b"
  by (auto simp: scenario_shipment_def)

lemma scenario_route:
  assumes "depot self = scenario_depot"
    and "capacity_kg vehicle = 5000" and "capacity_pallets vehicle = 10"
  shows "nearest_neighbor self scenario_pool vehicle =
   \<lparr> Route.vehicle_id = Vehicle.vehicle_id vehicle,
     stops = [scenario_shipment ''S1'', scenario_shipment ''S2''],
     total_distance_km = 30, total_weight_kg = 4000, total_pallets = 2,
     estimated_time_hours = 1.25 \<rparr>"
  using assms
  by (simp add: nearest_neighbor_def nn_loop.simps feasible_def visit_def Route_init_def
        scenario_pool_def scenario_shipment_def scenario_depot_def
        distance_to_def location_def AVERAGE_SPEED_def UNLOAD_TIME_MIN_def Let_def)

lemma scenario_router_depot [simp]: "depot (scenario_router vehicle) = scenario_depot"
  by (simp add: scenario_router_def add_shipments_def DeliveryRouter_init_def)

lemma scenario_plan:
  assumes "capacity_kg vehicle = 5000" and "capacity_pallets vehicle = 10"
    and "Vehicle.available vehicle"
  shows "create_plan (scenario_router vehicle) d =
   \<lparr> RoutePlan.date = d,
     routes = [\<lparr> Route.vehicle_id = Vehicle.vehicle_id vehicle,
                 stops = [scenario_shipment ''S1'', scenario_shipment ''S2''],
                 total_distance_km = 30, total_weight_kg = 4000, total_pallets = 2,
                 estimated_time_hours = 1.25 \<rparr>],
     unassigned = [scenario_shipment ''S3''] \<rparr>"
proof -
  have s: "sort_key shipment_key (shipments (scenario_router vehicle)) = scenario_pool"
    by (simp add: scenario_router_def add_shipments_def DeliveryRouter_init_def shipment_key_def
          scenario_shipment_def scenario_pool_def)
  have v: "sort_key (\<lambda>x. - capacity_kg (snd x)) (vehicles (scenario_router vehicle)) =
             [(Vehicle.vehicle_id vehicle, vehicle)]"
    by (simp add: scenario_router_def add_shipments_def DeliveryRouter_init_def)
  have p: "scenario_pool \<noteq> []" by (simp add: scenario_pool_def)
  show ?thesis
    unfolding create_plan_def s v Let_def
    by (simp add: assms(3) p scenario_route [OF scenario_router_depot assms(1,2)] remove_stops_def)
       (simp add: scenario_pool_def)
qed

section \<open>The routing cost model\<close>

lemma VEHICLES_keys:
  "map_of VEHICLES vid = None \<longleftrightarrow> vid \<notin> {''V1'', ''V2'', ''V3''}"
  by (simp add: VEHICLES_def)

lemma VEHICLES_entry:
  "(vid, v) \<in> set VEHICLES \<Longrightarrow> map_of VEHICLES (Vehicle.vehicle_id v) = Some v"
  by (auto simp: VEHICLES_def Vehicle_init_def)

lemma cost_lookup:
  "cost r = (case map_of VEHICLES (Route.vehicle_id r) of None \<Rightarrow> 0 | Some dv \<Rightarrow> cost_model r dv)"
  by (simp add: cost_def cost_model_def Let_def split: option.splits)

section \<open>Plans\<close>



lemma plan_loop_routes:
  "r \<in> set (fst (plan_loop self vs acc remaining)) \<Longrightarrow>
     r \<in> set acc \<or> (\<exists>p \<in> set vs. \<exists>pool. r = nearest_neighbor self pool (snd p))"
proof (induction vs arbitrary: acc remaining)
  case Nil
  then show ?case by simp
next
  case (Cons p vs)
  obtain vid vehicle where p: "p = (vid, vehicle)" by (cases p)
  let ?route = "nearest_neighbor self remaining vehicle"
  from Cons.prems consider
    "r \<in> set (fst (plan_loop self vs acc remaining))"
    | "r \<in> set (fst (plan_loop self vs (acc @ [?route]) (remove_stops (stops ?route) remaining)))"
    unfolding p by (auto simp: Let_def split: if_splits)
  then show ?case
  proof cases
    case 1
    from Cons.IH [OF this] show ?thesis by auto
  next
    case 2
    from Cons.IH [OF this] show ?thesis unfolding p by auto
  qed
qed

lemma create_plan_fields:
  "routes (create_plan self d) =
     fst (plan_loop self (sort_key (\<lambda>x. - capacity_kg (snd x)) (vehicles self)) []
            (sort_key shipment_key (shipments self)))"
  "unassigned (create_plan self d) =
     snd (plan_loop self (sort_key (\<lambda>x. - capacity_kg (snd x)) (vehicles self)) []
            (sort_key shipment_key (shipments self)))"
  by (simp_all add: create_plan_def Let_def case_prod_unfold)


lemma create_plan_routes:
  assumes "r \<in> set (routes (create_plan self d))"
  shows "\<exists>p \<in> set (vehicles self). \<exists>pool. r = nearest_neighbor self pool (snd p)"
  using plan_loop_routes [OF assms [unfolded create_plan_fields]] by simp

section \<open>Claims on the routing constructor and the cost model\<close>

text \<open>
  Claim C2, as amended. For every pool and every vehicle, the route built by
  \<^verbatim>\<open>nearest_neighbor\<close> has its total weight at most the vehicle's weight capacity and its total
  pallets at most the vehicle's pallet capacity, provided the route has at least one stop or
  both capacities of the vehicle are non-negative.
\<close>

theorem nearest_neighbor_capacity:
  "(stops (nearest_neighbor self pool vehicle) \<noteq> [] \<or>
      (0 \<le> capacity_kg vehicle \<and> 0 \<le> capacity_pallets vehicle))
   \<longrightarrow> within_capacity vehicle (nearest_neighbor self pool vehicle)"
proof (cases "stops (nearest_neighbor self pool vehicle) = []")
  case True
  from nearest_neighbor_empty [OF this] show ?thesis
    by (simp add: within_capacity_def Route_init_def)
next
  case False
  let ?l = "fst (nn_loop vehicle (Route_init (Vehicle.vehicle_id vehicle)) pool (depot self))"
  have "stops ?l \<noteq> []" using False by (simp add: nearest_neighbor_fields)
  moreover have "stops ?l \<noteq> [] \<longrightarrow> within_capacity vehicle ?l"
    by (rule nn_loop_capacity) (simp add: Route_init_def)
  ultimately have "within_capacity vehicle ?l" by simp
  then show ?thesis by (simp add: within_capacity_def nearest_neighbor_fields)
qed

text \<open>The scenario: two of the three shipments are loaded, 4000 kg in all.\<close>

theorem nearest_neighbor_capacity_witness:
  "stops (nearest_neighbor (scenario_router scenario_vehicle) scenario_pool scenario_vehicle) \<noteq> []
   \<and> 0 \<le> capacity_kg scenario_vehicle \<and> 0 \<le> capacity_pallets scenario_vehicle
   \<and> within_capacity scenario_vehicle
       (nearest_neighbor (scenario_router scenario_vehicle) scenario_pool scenario_vehicle)
   \<and> total_weight_kg
       (nearest_neighbor (scenario_router scenario_vehicle) scenario_pool scenario_vehicle) = 4000"
proof -
  have c: "capacity_kg scenario_vehicle = 5000" "capacity_pallets scenario_vehicle = 10"
    by (simp_all add: scenario_vehicle_def Vehicle_init_def)
  show ?thesis
    using nearest_neighbor_capacity [of "scenario_router scenario_vehicle" scenario_pool scenario_vehicle]
    by (simp add: scenario_route [OF scenario_router_depot c] c)
qed

text \<open>
  Claim C2 as stated ("any vehicle") fails for a vehicle whose capacity is negative: no
  shipment is feasible, the route stays empty, and its total weight 0 exceeds the capacity.
\<close>

theorem nearest_neighbor_capacity_counterexample:
  "\<not> within_capacity (Vehicle_init ''T0'' ''broken'' (- 1) 10 200 15000 50000)
       (nearest_neighbor (DeliveryRouter_init None None) scenario_pool
          (Vehicle_init ''T0'' ''broken'' (- 1) 10 200 15000 50000))"
  by (simp add: nearest_neighbor_def nn_loop_stop feasible_def within_capacity_def
        Route_init_def Vehicle_init_def scenario_pool_def scenario_shipment_def)

text \<open>
  Claim C10. \<^verbatim>\<open>Route.cost\<close> looks the vehicle up in the module-level table \<open>VEHICLES\<close>
  under the route's vehicle id: the cost is the cost model applied to that entry, and 0 for
  every route whose vehicle id is not one of the keys \<^verbatim>\<open>V1\<close>, \<^verbatim>\<open>V2\<close>, \<^verbatim>\<open>V3\<close>. The fleet of
  the router plays no part: the route built for a vehicle with another id costs 0, and so
  does every route of a plan made with a fleet of such vehicles.
\<close>

theorem cost_ignores_fleet:
  "(Route.vehicle_id r \<notin> {''V1'', ''V2'', ''V3''} \<longrightarrow> cost r = 0)
   \<and> (\<forall>dv. map_of VEHICLES (Route.vehicle_id r) = Some dv \<longrightarrow> cost r = cost_model r dv)
   \<and> (Vehicle.vehicle_id vehicle \<notin> {''V1'', ''V2'', ''V3''} \<longrightarrow>
        cost (nearest_neighbor self pool vehicle) = 0)
   \<and> ((\<forall>p \<in> set (vehicles self). Vehicle.vehicle_id (snd p) \<notin> {''V1'', ''V2'', ''V3''}) \<longrightarrow>
        (\<forall>r' \<in> set (routes (create_plan self d)). cost r' = 0))"
proof -
  have a: "cost x = 0" if "Route.vehicle_id x \<notin> {''V1'', ''V2'', ''V3''}" for x
    using that VEHICLES_keys [of "Route.vehicle_id x"] by (simp add: cost_lookup)
  have b: "cost (nearest_neighbor s pl v) = 0"
    if "Vehicle.vehicle_id v \<notin> {''V1'', ''V2'', ''V3''}" for s pl v
    using that by (intro a) (simp add: nearest_neighbor_fields)
  have c: "cost r' = 0"
    if "\<forall>p \<in> set (vehicles self). Vehicle.vehicle_id (snd p) \<notin> {''V1'', ''V2'', ''V3''}"
      and "r' \<in> set (routes (create_plan self d))" for r'
  proof -
    from create_plan_routes [OF that(2)] obtain p pool where
      "p \<in> set (vehicles self)" "r' = nearest_neighbor self pool (snd p)" by blast
    with that(1) show ?thesis using b by blast
  qed
  show ?thesis using a [of r] b [of vehicle self pool] c by (simp add: cost_lookup)
qed

text \<open>
  The scenario with the custom vehicle \<^verbatim>\<open>T1\<close>: the only route of the plan is 30 km long and
  costs 0; the same route for the default \<^verbatim>\<open>V1\<close> costs 74750.
\<close>

theorem cost_ignores_fleet_witness:
  "Vehicle.vehicle_id custom_vehicle \<notin> {''V1'', ''V2'', ''V3''}
   \<and> vehicles (scenario_router custom_vehicle) = [(''T1'', custom_vehicle)]
   \<and> routes (create_plan (scenario_router custom_vehicle) 0) =
       [nearest_neighbor (scenario_router custom_vehicle) scenario_pool custom_vehicle]
   \<and> total_distance_km (nearest_neighbor (scenario_router custom_vehicle) scenario_pool custom_vehicle) = 30
   \<and> cost (nearest_neighbor (scenario_router custom_vehicle) scenario_pool custom_vehicle) = 0
   \<and> map_of VEHICLES (Route.vehicle_id
         (nearest_neighbor (scenario_router scenario_vehicle) scenario_pool scenario_vehicle)) =
       Some (snd (hd VEHICLES))
   \<and> cost (nearest_neighbor (scenario_router scenario_vehicle) scenario_pool scenario_vehicle) = 74750"
proof -
  have c: "capacity_kg custom_vehicle = 5000" "capacity_pallets custom_vehicle = 10"
    "Vehicle.available custom_vehicle"
    by (simp_all add: custom_vehicle_def Vehicle_init_def)
  have s: "capacity_kg scenario_vehicle = 5000" "capacity_pallets scenario_vehicle = 10"
    by (simp_all add: scenario_vehicle_def Vehicle_init_def)
  have i: "Vehicle.vehicle_id custom_vehicle = ''T1''" "Vehicle.vehicle_id scenario_vehicle = ''V1''"
    by (simp_all add: custom_vehicle_def scenario_vehicle_def Vehicle_init_def)
  have v: "vehicles (scenario_router custom_vehicle) = [(''T1'', custom_vehicle)]"
    by (simp add: scenario_router_def add_shipments_def DeliveryRouter_init_def i)
  have m: "map_of VEHICLES ''V1'' = Some (snd (hd VEHICLES))"
    by (simp add: VEHICLES_def)
  have h: "snd (hd VEHICLES) = scenario_vehicle"
    by (simp add: VEHICLES_def scenario_vehicle_def)
  show ?thesis
    using cost_ignores_fleet [of
        "nearest_neighbor (scenario_router scenario_vehicle) scenario_pool scenario_vehicle"
        custom_vehicle "scenario_router custom_vehicle" scenario_pool 0]
    by (simp add: scenario_plan [OF c] scenario_route [OF scenario_router_depot c(1,2)] scenario_route [OF scenario_router_depot s] i v m)
       (simp add: cost_model_def h scenario_vehicle_def Vehicle_init_def)
qed


text \<open>
  Claim C4, as amended. The cost of a route is the cost model (distance times cost per km,
  plus hours times hourly rate, plus the fixed cost when the route has a stop) applied to the
  entry of the default table \<open>VEHICLES\<close> under the route's vehicle id, and 0 when the table
  has no such entry. It is the cost model applied to the route's own vehicle when that vehicle
  is its entry in the default table, in particular for every route planned with the default
  fleet.
\<close>

theorem cost_by_default_table:
  "cost r = (case map_of VEHICLES (Route.vehicle_id r) of None \<Rightarrow> 0 | Some dv \<Rightarrow> cost_model r dv)
   \<and> (map_of VEHICLES (Vehicle.vehicle_id vehicle) = Some vehicle \<longrightarrow>
        cost (nearest_neighbor self pool vehicle) =
          cost_model (nearest_neighbor self pool vehicle) vehicle)
   \<and> (vehicles self = VEHICLES \<longrightarrow>
        (\<forall>r' \<in> set (routes (create_plan self d)). \<exists>p \<in> set VEHICLES.
            Route.vehicle_id r' = Vehicle.vehicle_id (snd p) \<and> cost r' = cost_model r' (snd p)))"
proof -
  have b: "cost (nearest_neighbor s pl v) = cost_model (nearest_neighbor s pl v) v"
    if "map_of VEHICLES (Vehicle.vehicle_id v) = Some v" for s pl v
    using that by (simp add: cost_lookup nearest_neighbor_fields)
  have c: "\<exists>p \<in> set VEHICLES.
            Route.vehicle_id r' = Vehicle.vehicle_id (snd p) \<and> cost r' = cost_model r' (snd p)"
    if h1: "vehicles self = VEHICLES" and h2: "r' \<in> set (routes (create_plan self d))" for r'
  proof -
    obtain p pool where
      p: "p \<in> set VEHICLES" "r' = nearest_neighbor self pool (snd p)"
      using create_plan_routes [OF h2] unfolding h1 by blast
    have "map_of VEHICLES (Vehicle.vehicle_id (snd p)) = Some (snd p)"
      using VEHICLES_entry [of "fst p" "snd p"] p(1) by simp
    from b [OF this] p show ?thesis by (auto simp: nearest_neighbor_fields)
  qed
  show ?thesis using b [of vehicle self pool] c by (simp add: cost_lookup)
qed

text \<open>The scenario with the default fleet: the largest vehicle takes the three shipments.\<close>

lemma default_fleet_plan:
  "routes (create_plan (add_shipments (DeliveryRouter_init (Some scenario_depot) None) scenario_pool) d)
   = [\<lparr> Route.vehicle_id = ''V3'',
        stops = scenario_pool,
        total_distance_km = 40, total_weight_kg = 6000, total_pallets = 3,
        estimated_time_hours = 1.75 \<rparr>]"
proof -
  let ?self = "add_shipments (DeliveryRouter_init (Some scenario_depot) None) scenario_pool"
  have s: "sort_key shipment_key (shipments ?self) = scenario_pool"
    by (simp add: add_shipments_def DeliveryRouter_init_def shipment_key_def
          scenario_shipment_def scenario_pool_def)
  have v: "sort_key (\<lambda>x. - capacity_kg (snd x)) (vehicles ?self) =
             [VEHICLES ! 2, VEHICLES ! 0, VEHICLES ! 1]"
    by (simp add: add_shipments_def DeliveryRouter_init_def VEHICLES_def Vehicle_init_def)
  have n: "nearest_neighbor ?self scenario_pool (snd (VEHICLES ! 2)) =
      \<lparr> Route.vehicle_id = ''V3'', stops = scenario_pool,
        total_distance_km = 40, total_weight_kg = 6000, total_pallets = 3,
        estimated_time_hours = 1.75 \<rparr>"
    by (simp add: nearest_neighbor_def nn_loop.simps feasible_def visit_def Route_init_def
        scenario_pool_def scenario_shipment_def scenario_depot_def VEHICLES_def Vehicle_init_def
        DeliveryRouter_init_def add_shipments_def distance_to_def location_def
        AVERAGE_SPEED_def UNLOAD_TIME_MIN_def Let_def)
  have r: "remove_stops scenario_pool scenario_pool = []"
    by (simp add: remove_stops_def scenario_pool_def)
  have a: "Vehicle.available (snd (VEHICLES ! 2))" "scenario_pool \<noteq> []"
    by (simp_all add: VEHICLES_def Vehicle_init_def scenario_pool_def)
  have "plan_loop ?self [VEHICLES ! 2, VEHICLES ! 0, VEHICLES ! 1] [] scenario_pool =
          ([nearest_neighbor ?self scenario_pool (snd (VEHICLES ! 2))], [])"
    by (subst surjective_pairing [of "VEHICLES ! 2"], subst plan_loop.simps)
       (simp add: a n r, simp add: VEHICLES_def)
  then show ?thesis by (simp add: create_plan_fields s v n)
qed

theorem cost_by_default_table_witness:
  "map_of VEHICLES (Vehicle.vehicle_id scenario_vehicle) = Some scenario_vehicle
   \<and> cost (nearest_neighbor (add_shipments (DeliveryRouter_init (Some scenario_depot) None) scenario_pool)
         scenario_pool scenario_vehicle) = 30 * 200 + 1.25 * 15000 + 50000
   \<and> vehicles (add_shipments (DeliveryRouter_init (Some scenario_depot) None) scenario_pool) = VEHICLES
   \<and> routes (create_plan (add_shipments (DeliveryRouter_init (Some scenario_depot) None) scenario_pool) 0)
       = [\<lparr> Route.vehicle_id = ''V3'', stops = scenario_pool,
            total_distance_km = 40, total_weight_kg = 6000, total_pallets = 3,
            estimated_time_hours = 1.75 \<rparr>]
   \<and> (\<exists>p \<in> set VEHICLES.
         ''V3'' = Vehicle.vehicle_id (snd p) \<and>
         cost \<lparr> Route.vehicle_id = ''V3'', stops = scenario_pool,
                total_distance_km = 40, total_weight_kg = 6000, total_pallets = 3,
                estimated_time_hours = 1.75 \<rparr> =
         cost_model \<lparr> Route.vehicle_id = ''V3'', stops = scenario_pool,
                total_distance_km = 40, total_weight_kg = 6000, total_pallets = 3,
                estimated_time_hours = 1.75 \<rparr> (snd p))"
proof -
  let ?self = "add_shipments (DeliveryRouter_init (Some scenario_depot) None) scenario_pool"
  have s: "capacity_kg scenario_vehicle = 5000" "capacity_pallets scenario_vehicle = 10"
    by (simp_all add: scenario_vehicle_def Vehicle_init_def)
  have d: "depot ?self = scenario_depot"
    by (simp add: add_shipments_def DeliveryRouter_init_def)
  have m: "map_of VEHICLES (Vehicle.vehicle_id scenario_vehicle) = Some scenario_vehicle"
    by (simp add: VEHICLES_def scenario_vehicle_def Vehicle_init_def)
  have v: "vehicles ?self = VEHICLES"
    by (simp add: add_shipments_def DeliveryRouter_init_def)
  have c: "cost_model \<lparr> Route.vehicle_id = Vehicle.vehicle_id scenario_vehicle,
     stops = [scenario_shipment ''S1'', scenario_shipment ''S2''],
     total_distance_km = 30, total_weight_kg = 4000, total_pallets = 2,
     estimated_time_hours = 1.25 \<rparr> scenario_vehicle = 74750"
    by (simp add: cost_model_def scenario_vehicle_def Vehicle_init_def)
  show ?thesis
    using cost_by_default_table [of
        "nearest_neighbor ?self scenario_pool scenario_vehicle"
        scenario_vehicle ?self scenario_pool 0]
    unfolding default_fleet_plan scenario_route [OF d s] c
    by (simp add: m v)
qed

text \<open>
  Claim C4 as stated fails for a vehicle supplied to the router at construction: in the
  scenario with the custom vehicle \<^verbatim>\<open>T1\<close> the planned route costs 0, while the cost model
  gives 30 * 100 + 1.25 * 1000 + 500 = 4750 for that vehicle.
\<close>

theorem cost_by_default_table_counterexample:
  "routes (create_plan (scenario_router custom_vehicle) 0) =
     [nearest_neighbor (scenario_router custom_vehicle) scenario_pool custom_vehicle]
   \<and> vehicles (scenario_router custom_vehicle) = [(''T1'', custom_vehicle)]
   \<and> cost (nearest_neighbor (scenario_router custom_vehicle) scenario_pool custom_vehicle) = 0
   \<and> cost_model (nearest_neighbor (scenario_router custom_vehicle) scenario_pool custom_vehicle)
       custom_vehicle = 4750"
proof -
  have c: "capacity_kg custom_vehicle = 5000" "capacity_pallets custom_vehicle = 10"
    "Vehicle.available custom_vehicle"
    by (simp_all add: custom_vehicle_def Vehicle_init_def)
  have i: "Vehicle.vehicle_id custom_vehicle = ''T1''"
    by (simp add: custom_vehicle_def Vehicle_init_def)
  have v: "vehicles (scenario_router custom_vehicle) = [(''T1'', custom_vehicle)]"
    by (simp add: scenario_router_def add_shipments_def DeliveryRouter_init_def i)
  show ?thesis
    by (simp add: scenario_plan [OF c] scenario_route [OF scenario_router_depot c(1,2)] v i cost_def VEHICLES_def
          cost_model_def)
       (simp add: custom_vehicle_def Vehicle_init_def)
qed



section \<open>The scheduling constructor: machine selection\<close>

lemma calculate_setup_time_pos: "0 < calculate_setup_time from_color to_color"
  by (simp add: calculate_setup_time_def SETUP_TIME_MATRIX_def)

lemma candidates_Nil [simp]: "candidates machine_states order [] = []"
  by (simp add: candidates_def)

lemma candidates_Cons:
  "candidates machine_states order (m # ms) =
     (case machine_states (Machine.machine_id m) of
        None \<Rightarrow> []
      | Some state \<Rightarrow>
          if int (length (orders_today state)) < max_items_per_cycle m
          then [(m, calculate_setup_time (current_color state) (color order))]
          else []) @ candidates machine_states order ms"
  by (simp add: candidates_def)

lemma candidates_in:
  "(m, t) \<in> set (candidates machine_states order cs) \<Longrightarrow>
     m \<in> set cs \<and>
     (\<exists>state. machine_states (Machine.machine_id m) = Some state \<and>
        int (length (orders_today state)) < max_items_per_cycle m \<and>
        t = calculate_setup_time (current_color state) (color order))"
proof (induction cs)
  case Nil
  then show ?case by simp
next
  case (Cons c cs)
  show ?case
  proof (cases "(m, t) \<in> set (candidates machine_states order cs)")
    case True
    from Cons.IH [OF this] show ?thesis by auto
  next
    case False
    with Cons.prems show ?thesis
      by (cases "machine_states (Machine.machine_id c)")
         (auto simp: candidates_Cons split: if_splits)
  qed
qed

lemma select_machine_Some:
  "covers machine_states cs \<Longrightarrow>
     select_machine machine_states order cs (Some b) =
       Inr (Some (py_min snd b (candidates machine_states order cs)))"
proof (induction cs arbitrary: b)
  case Nil
  then show ?case by simp
next
  case (Cons m cs)
  from Cons.prems obtain state where st: "machine_states (Machine.machine_id m) = Some state"
    and cv: "covers machine_states cs" by (auto simp: covers_def)
  show ?case
    using Cons.IH [OF cv]
    by (cases b) (simp add: st candidates_Cons Let_def)
qed

lemma select_machine_None:
  "covers machine_states cs \<Longrightarrow>
     select_machine machine_states order cs None =
       Inr (case candidates machine_states order cs of
              [] \<Rightarrow> None
            | c # rest \<Rightarrow> Some (py_min snd c rest))"
proof (induction cs)
  case Nil
  then show ?case by simp
next
  case (Cons m cs)
  from Cons.prems obtain state where st: "machine_states (Machine.machine_id m) = Some state"
    and cv: "covers machine_states cs" by (auto simp: covers_def)
  show ?case
    using Cons.IH [OF cv] select_machine_Some [OF cv]
    by (simp add: st candidates_Cons Let_def)
qed

text \<open>Without the assumption on the dictionary: what a successful selection returns.\<close>

lemma select_machine_result:
  "select_machine machine_states order cs best = Inr (Some (m, t)) \<Longrightarrow>
     best = Some (m, t) \<or> (m, t) \<in> set (candidates machine_states order cs)"
proof (induction cs arbitrary: best)
  case Nil
  then show ?case by simp
next
  case (Cons c cs)
  from Cons.prems obtain state where st: "machine_states (Machine.machine_id c) = Some state"
    by (auto split: option.splits)
  let ?t = "calculate_setup_time (current_color state) (color order)"
  show ?case
  proof (cases "int (length (orders_today state)) \<ge> max_items_per_cycle c")
    case True
    then have "select_machine machine_states order cs best = Inr (Some (m, t))"
      using Cons.prems st by (simp add: Let_def)
    from Cons.IH [OF this] show ?thesis by (auto simp: candidates_Cons st)
  next
    case False
    then have cc: "candidates machine_states order (c # cs) =
        (c, ?t) # candidates machine_states order cs"
      by (simp add: candidates_Cons st)
    from Cons.prems False st consider
      "select_machine machine_states order cs (Some (c, ?t)) = Inr (Some (m, t))"
      | "select_machine machine_states order cs best = Inr (Some (m, t))"
      by (auto simp: Let_def split: if_splits)
    then show ?thesis
    proof cases
      case 1
      from Cons.IH [OF this] show ?thesis unfolding cc by auto
    next
      case 2
      from Cons.IH [OF this] show ?thesis unfolding cc by auto
    qed
  qed
qed


section \<open>The scheduling constructor: one order\<close>

lemma estimate_production_time_eq:
  "estimate_production_time order m =
     (if speed_m_per_min m = 0 then Inl ZeroDivisionError else Inr (production_hours order m))"
  by (simp add: estimate_production_time_def production_hours_def Let_def)

lemma get_compatible_subset: "set (get_compatible_machines self order) \<subseteq> set (machines self)"
  by (auto simp: get_compatible_machines_def)

lemma covers_subset: "covers machine_states ms \<Longrightarrow> set cs \<subseteq> set ms \<Longrightarrow> covers machine_states cs"
  by (auto simp: covers_def)

text \<open>
  The statements of the loop body after the selection of the machine \<open>m\<close> with setup time
  \<open>t\<close>: the times of the slot, then the test of the work window.
\<close>

lemma slot_computation:
  "(case estimate_production_time order m of
      Inl e \<Rightarrow> Inl e
    | Inr production_time \<Rightarrow>
   (case timedelta_minutes t of
      Inl e \<Rightarrow> Inl e
    | Inr setup_delta \<Rightarrow>
   (case datetime_add (current_time state) setup_delta of
      Inl e \<Rightarrow> Inl e
    | Inr start_t \<Rightarrow>
   (case timedelta_hours production_time of
      Inl e \<Rightarrow> Inl e
    | Inr pd \<Rightarrow>
   (case datetime_add start_t pd of
      Inl e \<Rightarrow> Inl e
    | Inr end_t \<Rightarrow> k start_t end_t))))) =
   (if speed_m_per_min m = 0 then Inl ZeroDivisionError
    else if \<not> representable order m t state then Inl OverflowError
    else k (start_time (slot_for order m t state)) (end_time (slot_for order m t state)))"
  by (simp add: estimate_production_time_eq timedelta_minutes_def datetime_add_def
        timedelta_hours_def representable_def slot_for_def production_delta_def Let_def)

lemma schedule_order_unscheduled:
  assumes "covers machine_states (machines self)"
    and "candidates machine_states order (get_compatible_machines self order) = []"
  shows "schedule_order self target_date (schedule, machine_states) order =
           Inr (unschedule schedule order, machine_states)"
proof -
  have cv: "covers machine_states (get_compatible_machines self order)"
    using assms(1) get_compatible_subset by (rule covers_subset)
  show ?thesis
    by (simp add: schedule_order_def Let_def select_machine_None [OF cv] assms(2))
qed

lemma schedule_order_selected:
  assumes "covers machine_states (machines self)"
    and "candidates machine_states order (get_compatible_machines self order) = c # rest"
    and "py_min snd c rest = (m, t)"
    and "machine_states (Machine.machine_id m) = Some state"
  shows "schedule_order self target_date (schedule, machine_states) order =
           (if speed_m_per_min m = 0 then Inl ZeroDivisionError
            else if \<not> representable order m t state then Inl OverflowError
            else if end_time (slot_for order m t state) > combine_hour target_date WORK_END_HOUR
            then Inr (unschedule schedule order, machine_states)
            else Inr (add_slot schedule (slot_for order m t state),
                      machine_states(Machine.machine_id m \<mapsto>
                        advance order (end_time (slot_for order m t state)) state)))"
proof -
  have cv: "covers machine_states (get_compatible_machines self order)"
    using assms(1) get_compatible_subset by (rule covers_subset)
  have ne: "get_compatible_machines self order \<noteq> []"
    using assms(2) by auto
  show ?thesis
    unfolding schedule_order_def Let_def
    by (simp add: select_machine_None [OF cv] assms ne slot_computation)
       (simp add: slot_for_def advance_def)
qed

text \<open>What a successful step did, whatever the dictionary.\<close>

lemma schedule_order_elim:
  assumes "schedule_order self target_date (schedule, machine_states) order = Inr (schedule', machine_states')"
  shows "(schedule' = unschedule schedule order \<and> machine_states' = machine_states) \<or>
         (\<exists>m t state.
            (m, t) \<in> set (candidates machine_states order (get_compatible_machines self order)) \<and>
            machine_states (Machine.machine_id m) = Some state \<and>
            speed_m_per_min m \<noteq> 0 \<and>
            representable order m t state \<and>
            end_time (slot_for order m t state) \<le> combine_hour target_date WORK_END_HOUR \<and>
            schedule' = add_slot schedule (slot_for order m t state) \<and>
            machine_states' = machine_states(Machine.machine_id m \<mapsto>
                        advance order (end_time (slot_for order m t state)) state))"
proof (cases "get_compatible_machines self order = []")
  case True
  with assms show ?thesis by (simp add: schedule_order_def Let_def)
next
  case False
  let ?cs = "get_compatible_machines self order"
  from assms False obtain best where sel: "select_machine machine_states order ?cs None = Inr best"
    by (cases "select_machine machine_states order ?cs None") (auto simp: schedule_order_def Let_def)
  show ?thesis
  proof (cases best)
    case None
    with assms False sel show ?thesis by (simp add: schedule_order_def Let_def)
  next
    case (Some b)
    obtain m t where b: "b = (m, t)" by (cases b)
    from select_machine_result [OF sel [unfolded Some b]]
    have mem: "(m, t) \<in> set (candidates machine_states order ?cs)" by simp
    from candidates_in [OF mem] obtain state where
      st: "machine_states (Machine.machine_id m) = Some state" by blast
    have eq: "schedule_order self target_date (schedule, machine_states) order =
           (if speed_m_per_min m = 0 then Inl ZeroDivisionError
            else if \<not> representable order m t state then Inl OverflowError
            else if end_time (slot_for order m t state) > combine_hour target_date WORK_END_HOUR
            then Inr (unschedule schedule order, machine_states)
            else Inr (add_slot schedule (slot_for order m t state),
                      machine_states(Machine.machine_id m \<mapsto>
                        advance order (end_time (slot_for order m t state)) state)))"
      unfolding schedule_order_def Let_def
      by (simp add: False sel Some b st slot_computation) (simp add: slot_for_def advance_def)
    from assms [unfolded eq] have sp: "speed_m_per_min m \<noteq> 0" and rp: "representable order m t state"
      by (auto split: if_splits)
    show ?thesis
    proof (cases "end_time (slot_for order m t state) > combine_hour target_date WORK_END_HOUR")
      case True
      with assms [unfolded eq] sp rp show ?thesis by simp
    next
      case late: False
      with assms [unfolded eq] sp rp have
        "schedule' = add_slot schedule (slot_for order m t state)"
        "machine_states' = machine_states(Machine.machine_id m \<mapsto>
                        advance order (end_time (slot_for order m t state)) state)"
        by simp_all
      with mem st sp rp late show ?thesis by (intro disjI2 exI [of _ m] exI [of _ t] exI [of _ state]) simp
    qed
  qed
qed

section \<open>The scheduling constructor: the loop\<close>

lemma schedule_loop_append:
  "schedule_loop self target_date st (xs @ ys) =
     (case schedule_loop self target_date st xs of
        Inl e \<Rightarrow> Inl e
      | Inr st' \<Rightarrow> schedule_loop self target_date st' ys)"
  by (induction xs arbitrary: st) (auto split: sum.splits)

lemma schedule_loop_invariant:
  assumes "schedule_loop self target_date st os = Inr st'"
    and "P st"
    and "\<And>s ord s'. P s \<Longrightarrow> ord \<in> set os \<Longrightarrow>
           schedule_order self target_date s ord = Inr s' \<Longrightarrow> P s'"
  shows "P st'"
  using assms
proof (induction os arbitrary: st)
  case Nil
  then show ?case by simp
next
  case (Cons ord os)
  from Cons.prems(1) obtain s1 where s1: "schedule_order self target_date st ord = Inr s1"
    and l: "schedule_loop self target_date s1 os = Inr st'"
    by (auto split: sum.splits)
  have "P s1" by (rule Cons.prems(3) [OF Cons.prems(2) _ s1]) simp
  show ?case
  proof (rule Cons.IH [OF l \<open>P s1\<close>])
    fix s ord' s'
    assume "P s" "ord' \<in> set os" "schedule_order self target_date s ord' = Inr s'"
    then show "P s'" using Cons.prems(3) [of s ord' s'] by simp
  qed
qed

lemma covers_step:
  assumes "schedule_order self target_date (schedule, machine_states) order = Inr (schedule', machine_states')"
    and "covers machine_states ms"
  shows "covers machine_states' ms"
  using schedule_order_elim [OF assms(1)] assms(2) by (auto simp: covers_def)

lemma initial_machine_states_covers:
  "covers (initial_machine_states self target_date) (machines self)"
proof -
  have "covers (fold (\<lambda>m states. states(Machine.machine_id m \<mapsto> f m)) ms s0) ms'"
    if "\<forall>m \<in> set ms'. m \<in> set ms \<or> s0 (Machine.machine_id m) \<noteq> None"
    for ms ms' :: "Machine list" and s0 :: "string \<rightharpoonup> MachineState" and f
    using that
  proof (induction ms arbitrary: s0)
    case Nil
    then show ?case by (simp add: covers_def)
  next
    case (Cons a ms)
    show ?case
      using Cons.prems by (simp only: fold_simps, intro Cons.IH) auto
  qed
  then show ?thesis unfolding initial_machine_states_def by blast
qed

lemma create_schedule_loop:
  "create_schedule self target_date =
     (case schedule_loop self target_date (start_state self target_date)
             (sort_orders_for_scheduling self (ProductionScheduler.orders self)) of
        Inl e \<Rightarrow> Inl e
      | Inr st' \<Rightarrow> Inr (fst st'))"
  by (simp add: create_schedule_def start_state_def Let_def split: sum.splits prod.splits)

section \<open>Coverage of the orders\<close>

lemma scheduled_simps [simp]:
  "scheduled (unschedule schedule order) = scheduled schedule"
  "unscheduled_orders (unschedule schedule order) = unscheduled_orders schedule @ [order]"
  "slots (unschedule schedule order) = slots schedule"
  "slots (add_slot schedule slot) = slots schedule @ [slot]"
  "scheduled (add_slot schedule slot) = scheduled schedule @ ScheduleSlot.orders slot"
  "unscheduled_orders (add_slot schedule slot) = unscheduled_orders schedule"
  by (simp_all add: scheduled_def unschedule_def add_slot_def)

lemma slot_for_simps [simp]:
  "ScheduleSlot.machine_id (slot_for order m t state) = Machine.machine_id m"
  "ScheduleSlot.orders (slot_for order m t state) = [order]"
  "start_time (slot_for order m t state) = current_time state + t * US_PER_MINUTE"
  "setup_time_min (slot_for order m t state) = t"
  by (simp_all add: slot_for_def)





section \<open>The scheduling scenario\<close>

lemma scenario_sorted:
  "sort_orders_for_scheduling scenario_scheduler (ProductionScheduler.orders scenario_scheduler)
     = scenario_orders"
  by (simp add: sort_orders_for_scheduling_def scenario_scheduler_def add_orders_def
        ProductionScheduler_init_def scenario_orders_def order_key_def scenario_order_def
        narrow_order_def long_order_def)

lemma scenario_schedule:
  "create_schedule scenario_scheduler 0 =
     Inr \<lparr> Schedule.date = 0,
           slots = [scenario_slot ''O1'' 490, scenario_slot ''O2'' 600,
                    scenario_slot ''O3'' 710, scenario_slot ''O4'' 820],
           unscheduled_orders = [scenario_order ''O5'', narrow_order, long_order] \<rparr>"
  unfolding create_schedule_def scenario_sorted Let_def
  by (simp add: scenario_orders_def schedule_order_def get_compatible_machines_def
        scenario_scheduler_def add_orders_def ProductionScheduler_init_def MACHINES_def
        Machine_init_def initial_machine_states_def initial_state_def combine_hour_def
        WORK_START_HOUR_def WORK_END_HOUR_def calculate_setup_time_def SETUP_TIME_MATRIX_def
        estimate_production_time_def unschedule_def add_slot_def scenario_slot_def
        scenario_order_def narrow_order_def long_order_def Let_def
        timedelta_minutes_def timedelta_hours_def datetime_add_def valid_timedelta_def
        valid_datetime_def round_half_even_def at_minute_def
        US_PER_MINUTE_def US_PER_HOUR_def US_PER_DAY_def)




section \<open>Claims on the coverage of the input\<close>



section \<open>The time line of a schedule\<close>

lemma slots_of_simps [simp]:
  "slots_of mid (unschedule schedule order) = slots_of mid schedule"
  "slots_of mid (add_slot schedule slot) =
     slots_of mid schedule @ (if ScheduleSlot.machine_id slot = mid then [slot] else [])"
  by (simp_all add: slots_of_def)

lemma end_time_slot_for [simp]:
  "end_time (slot_for order m t state) =
     current_time state + t * US_PER_MINUTE + production_delta order m"
  by (simp add: slot_for_def)

lemma round_half_even_nonneg: "0 \<le> x \<Longrightarrow> 0 \<le> round_half_even x"
  by (auto simp: round_half_even_def Let_def)

lemma production_delta_nonneg: "0 \<le> production_hours order m \<Longrightarrow> 0 \<le> production_delta order m"
  by (simp add: production_delta_def round_half_even_nonneg US_PER_HOUR_def)

lemma current_time_advance [simp]: "current_time (advance order e state) = e"
  by (simp add: advance_def)

lemma timeline_step:
  assumes so: "schedule_order self target_date st order = Inr st'"
    and tl: "timeline target_date st"
  shows "timeline target_date st'"
proof -
  obtain sch ms sch' ms' where p: "st = (sch, ms)" "st' = (sch', ms')"
    by (cases st, cases st')
  from schedule_order_elim [OF so [unfolded p]]
  consider "sch' = unschedule sch order" "ms' = ms"
    | m t state where
        "(m, t) \<in> set (candidates ms order (get_compatible_machines self order))"
        "ms (Machine.machine_id m) = Some state"
        "end_time (slot_for order m t state) \<le> combine_hour target_date WORK_END_HOUR"
        "sch' = add_slot sch (slot_for order m t state)"
        "ms' = ms(Machine.machine_id m \<mapsto> advance order (end_time (slot_for order m t state)) state)"
    by blast
  then show ?thesis
  proof cases
    case 1
    with tl show ?thesis unfolding p by (simp add: timeline_def)
  next
    case 2
    let ?slot = "slot_for order m t state"
    let ?P = "\<lambda>a b. end_time a < start_time b"
    from candidates_in [OF 2(1)] 2(2) have "t = calculate_setup_time (current_color state) (color order)"
      by auto
    then have t: "0 < t * US_PER_MINUTE" by (simp add: calculate_setup_time_pos US_PER_MINUTE_def)
    have a: "\<forall>s \<in> set (slots sch'). end_time s \<le> work_end target_date"
      using tl 2(3) unfolding p 2(4) by (simp add: timeline_def work_end_def)
    have b: "successively ?P (slots_of mid sch') \<and>
            (slots_of mid sch' \<noteq> [] \<longrightarrow>
               (\<exists>state'. ms' mid = Some state' \<and>
                  current_time state' = end_time (last (slots_of mid sch'))))" for mid
    proof (cases "mid = Machine.machine_id m")
      case False
      with tl show ?thesis unfolding p 2(4,5) by (simp add: timeline_def)
    next
      case True
      from tl have s: "successively ?P (slots_of mid sch)"
        and c: "slots_of mid sch \<noteq> [] \<longrightarrow>
                  current_time state = end_time (last (slots_of mid sch))"
        unfolding p using 2(2) True by (auto simp: timeline_def)
      have "successively ?P (slots_of mid sch @ [?slot])"
        using s c t by (auto simp: successively_append_iff)
      then show ?thesis unfolding 2(4,5) using True by simp
    qed
    show ?thesis unfolding p timeline_def fst_conv snd_conv using a b by blast
  qed
qed

lemma timeline_start: "timeline target_date (start_state self target_date)"
  by (simp add: timeline_def start_state_def slots_of_def)

lemma create_schedule_timeline:
  assumes "create_schedule self target_date = Inr schedule"
  shows "\<exists>machine_states. timeline target_date (schedule, machine_states)"
proof -
  from assms obtain st' where
    l: "schedule_loop self target_date (start_state self target_date)
          (sort_orders_for_scheduling self (ProductionScheduler.orders self)) = Inr st'"
    and s: "schedule = fst st'"
    by (auto simp: create_schedule_loop split: sum.splits)
  have "timeline target_date st'"
  proof (rule schedule_loop_invariant [where P = "timeline target_date", OF l])
    show "timeline target_date (start_state self target_date)" by (rule timeline_start)
  next
    fix s ord s'
    assume "timeline target_date s" "schedule_order self target_date s ord = Inr s'"
    then show "timeline target_date s'" using timeline_step by blast
  qed
  then show ?thesis unfolding s by (cases st') auto
qed

text \<open>With non-negative quantities and positive speeds no slot ends before it starts.\<close>

lemma create_schedule_forward:
  assumes cs: "create_schedule self target_date = Inr schedule"
    and q: "\<forall>ord \<in> set (ProductionScheduler.orders self). 0 \<le> quantity_rolls ord"
    and v: "\<forall>m \<in> set (machines self). 0 < speed_m_per_min m"
  shows "\<forall>s \<in> set (slots schedule). start_time s \<le> end_time s"
proof -
  let ?os = "sort_orders_for_scheduling self (ProductionScheduler.orders self)"
  from cs obtain st' where
    l: "schedule_loop self target_date (start_state self target_date) ?os = Inr st'"
    and s: "schedule = fst st'"
    by (auto simp: create_schedule_loop split: sum.splits)
  have os: "set ?os = set (ProductionScheduler.orders self)"
    by (simp add: sort_orders_for_scheduling_def)
  have "\<forall>s \<in> set (slots (fst st')). start_time s \<le> end_time s"
  proof (rule schedule_loop_invariant [OF l])
    show "\<forall>s \<in> set (slots (fst (start_state self target_date))). start_time s \<le> end_time s"
      by (simp add: start_state_def)
  next
    fix st ord st'
    assume i: "\<forall>s \<in> set (slots (fst st)). start_time s \<le> end_time s"
      and mem: "ord \<in> set ?os"
      and so: "schedule_order self target_date st ord = Inr st'"
    obtain sch ms sch' ms' where p: "st = (sch, ms)" "st' = (sch', ms')"
      by (cases st, cases st')
    from schedule_order_elim [OF so [unfolded p]]
    consider "sch' = unschedule sch ord"
      | m t state where
          "(m, t) \<in> set (candidates ms ord (get_compatible_machines self ord))"
          "sch' = add_slot sch (slot_for ord m t state)"
      by blast
    then show "\<forall>s \<in> set (slots (fst st')). start_time s \<le> end_time s"
    proof cases
      case 1
      with i show ?thesis unfolding p by simp
    next
      case 2
      from candidates_in [OF 2(1)] get_compatible_subset have "m \<in> set (machines self)" by blast
      with v have "0 < speed_m_per_min m" by blast
      moreover have "0 \<le> quantity_rolls ord" using q mem os by blast
      ultimately have "0 \<le> production_hours ord m" by (simp add: production_hours_def)
      then have "0 \<le> production_delta ord m" by (rule production_delta_nonneg)
      with i show ?thesis unfolding p 2(2) by simp
    qed
  qed
  then show ?thesis by (simp add: s)
qed


section \<open>Claims on the time line\<close>

text \<open>
  Claim C6. In every schedule \<^verbatim>\<open>create_schedule\<close> returns, the slots of any one machine, in
  assignment order, follow one another: each ends strictly before the next one starts (the
  next start is the previous end plus a positive setup time), and no slot ends after 20:00 of
  the target date. When moreover no order has a negative quantity and every machine has a
  positive speed, no slot ends before it starts, so that the slots of a machine are pairwise
  disjoint and ordered in time.
\<close>

theorem slots_in_order:
  "create_schedule self target_date = Inr schedule \<longrightarrow>
     (\<forall>mid i. Suc i < length (slots_of mid schedule) \<longrightarrow>
        end_time (slots_of mid schedule ! i) < start_time (slots_of mid schedule ! Suc i))
     \<and> (\<forall>s \<in> set (slots schedule). end_time s \<le> work_end target_date)
     \<and> ((\<forall>ord \<in> set (ProductionScheduler.orders self). 0 \<le> quantity_rolls ord) \<and>
         (\<forall>m \<in> set (machines self). 0 < speed_m_per_min m) \<longrightarrow>
           (\<forall>s \<in> set (slots schedule). start_time s \<le> end_time s) \<and>
           (\<forall>mid. sorted_wrt (\<lambda>a b. end_time a < start_time b) (slots_of mid schedule)))"
proof (intro impI)
  assume cs: "create_schedule self target_date = Inr schedule"
  let ?P = "\<lambda>a b. end_time a < start_time b"
  from create_schedule_timeline [OF cs] obtain machine_states where
    tl: "timeline target_date (schedule, machine_states)" by blast
  then have su: "successively ?P (slots_of mid schedule)" for mid
    by (simp add: timeline_def)
  have a: "\<forall>mid i. Suc i < length (slots_of mid schedule) \<longrightarrow>
        end_time (slots_of mid schedule ! i) < start_time (slots_of mid schedule ! Suc i)"
    using su by (simp add: successively_conv_nth)
  have b: "\<forall>s \<in> set (slots schedule). end_time s \<le> work_end target_date"
    using tl by (simp add: timeline_def)
  have c: "(\<forall>s \<in> set (slots schedule). start_time s \<le> end_time s) \<and>
           (\<forall>mid. sorted_wrt ?P (slots_of mid schedule))"
    if q: "\<forall>ord \<in> set (ProductionScheduler.orders self). 0 \<le> quantity_rolls ord"
      and v: "\<forall>m \<in> set (machines self). 0 < speed_m_per_min m"
  proof -
    note f = create_schedule_forward [OF cs q v]
    have "sorted_wrt ?P (slots_of mid schedule)" for mid
    proof -
      have "successively ?P (slots_of mid schedule) \<longleftrightarrow> sorted_wrt ?P (slots_of mid schedule)"
      proof (rule successively_iff_sorted_wrt_strong)
        fix x y z :: ScheduleSlot
        assume "y \<in> set (slots_of mid schedule)" and xy: "end_time x < start_time y"
          and yz: "end_time y < start_time z"
        then have "start_time y \<le> end_time y" using f by (simp add: slots_of_def)
        with xy yz show "end_time x < start_time z" by simp
      qed
      with su show ?thesis by simp
    qed
    with f show ?thesis by simp
  qed
  show "(\<forall>mid i. Suc i < length (slots_of mid schedule) \<longrightarrow>
        end_time (slots_of mid schedule ! i) < start_time (slots_of mid schedule ! Suc i))
     \<and> (\<forall>s \<in> set (slots schedule). end_time s \<le> work_end target_date)
     \<and> ((\<forall>ord \<in> set (ProductionScheduler.orders self). 0 \<le> quantity_rolls ord) \<and>
         (\<forall>m \<in> set (machines self). 0 < speed_m_per_min m) \<longrightarrow>
           (\<forall>s \<in> set (slots schedule). start_time s \<le> end_time s) \<and>
           (\<forall>mid. sorted_wrt (\<lambda>a b. end_time a < start_time b) (slots_of mid schedule)))"
    using a b c by blast
qed

text \<open>
  The scenario: the second machine works 490--590, 600--700, 710--810 and 820--920 (minutes
  of the day, as microseconds), and the day ends at minute 1200.
\<close>

theorem slots_in_order_witness:
  "create_schedule scenario_scheduler 0 =
     Inr \<lparr> Schedule.date = 0,
           slots = [scenario_slot ''O1'' 490, scenario_slot ''O2'' 600,
                    scenario_slot ''O3'' 710, scenario_slot ''O4'' 820],
           unscheduled_orders = [scenario_order ''O5'', narrow_order, long_order] \<rparr>
   \<and> slots_of ''M2''
        \<lparr> Schedule.date = 0,
          slots = [scenario_slot ''O1'' 490, scenario_slot ''O2'' 600,
                   scenario_slot ''O3'' 710, scenario_slot ''O4'' 820],
          unscheduled_orders = [scenario_order ''O5'', narrow_order, long_order] \<rparr> =
       [scenario_slot ''O1'' 490, scenario_slot ''O2'' 600,
        scenario_slot ''O3'' 710, scenario_slot ''O4'' 820]
   \<and> end_time (scenario_slot ''O1'' 490) < start_time (scenario_slot ''O2'' 600)
   \<and> end_time (scenario_slot ''O2'' 600) < start_time (scenario_slot ''O3'' 710)
   \<and> end_time (scenario_slot ''O3'' 710) < start_time (scenario_slot ''O4'' 820)
   \<and> end_time (scenario_slot ''O4'' 820) = at_minute 920
   \<and> work_end 0 = at_minute 1200
   \<and> start_time (scenario_slot ''O1'' 490) \<le> end_time (scenario_slot ''O1'' 490)"
proof -
  let ?S = "\<lparr> Schedule.date = 0,
          slots = [scenario_slot ''O1'' 490, scenario_slot ''O2'' 600,
                   scenario_slot ''O3'' 710, scenario_slot ''O4'' 820],
          unscheduled_orders = [scenario_order ''O5'', narrow_order, long_order] \<rparr>"
  have w: "work_end 0 = at_minute 1200"
    by (simp add: work_end_def combine_hour_def WORK_END_HOUR_def at_minute_def
          US_PER_MINUTE_def US_PER_HOUR_def US_PER_DAY_def)
  have s: "slots_of ''M2'' ?S = [scenario_slot ''O1'' 490, scenario_slot ''O2'' 600,
        scenario_slot ''O3'' 710, scenario_slot ''O4'' 820]"
    by (simp add: slots_of_def scenario_slot_def)
  have q: "\<forall>ord \<in> set (ProductionScheduler.orders scenario_scheduler). 0 \<le> quantity_rolls ord"
    by (simp add: scenario_scheduler_def add_orders_def ProductionScheduler_init_def
          scenario_orders_def scenario_order_def narrow_order_def long_order_def)
  have v: "\<forall>m \<in> set (machines scenario_scheduler). 0 < speed_m_per_min m"
    by (simp add: scenario_scheduler_def add_orders_def ProductionScheduler_init_def
          MACHINES_def Machine_init_def)
  from slots_in_order [of scenario_scheduler 0 ?S] scenario_schedule q v
  have "(\<forall>mid i. Suc i < length (slots_of mid ?S) \<longrightarrow>
           end_time (slots_of mid ?S ! i) < start_time (slots_of mid ?S ! Suc i))"
    and e: "\<forall>s \<in> set (slots ?S). end_time s \<le> work_end 0"
    and f: "\<forall>s \<in> set (slots ?S). start_time s \<le> end_time s"
    by blast+
  then have n: "\<forall>i. Suc i < length (slots_of ''M2'' ?S) \<longrightarrow>
           end_time (slots_of ''M2'' ?S ! i) < start_time (slots_of ''M2'' ?S ! Suc i)"
    by blast
  have "end_time (scenario_slot ''O1'' 490) < start_time (scenario_slot ''O2'' 600)"
    using n [rule_format, of 0] unfolding s by simp
  moreover have "end_time (scenario_slot ''O2'' 600) < start_time (scenario_slot ''O3'' 710)"
    using n [rule_format, of 1] unfolding s by simp
  moreover have "end_time (scenario_slot ''O3'' 710) < start_time (scenario_slot ''O4'' 820)"
    using n [rule_format, of 2] unfolding s by simp
  moreover have "end_time (scenario_slot ''O4'' 820) = at_minute 920" by (simp add: scenario_slot_def)
  moreover have "start_time (scenario_slot ''O1'' 490) \<le> end_time (scenario_slot ''O1'' 490)"
    using f by simp
  ultimately show ?thesis using scenario_schedule s w by simp
qed

section \<open>The state in which an order is processed\<close>

lemma first_minimum_py_min:
  "\<exists>i. first_minimum (c # rest) i \<and> (c # rest) ! i = py_min snd c rest"
proof -
  from py_min_first [of c rest snd] obtain i where
    "i < length (c # rest)" "(c # rest) ! i = py_min snd c rest"
    "\<forall>j < i. snd (py_min snd c rest) < snd ((c # rest) ! j)" by blast
  moreover have "\<forall>x \<in> set (c # rest). snd (py_min snd c rest) \<le> snd x"
    using py_min_le [of snd c rest] by simp
  ultimately have "first_minimum (c # rest) i" unfolding first_minimum_def by metis
  with \<open>(c # rest) ! i = py_min snd c rest\<close> show ?thesis by blast
qed

lemma first_minimum_unique:
  assumes "first_minimum cs i" and "first_minimum cs j"
  shows "i = j"
proof (rule ccontr)
  assume "i \<noteq> j"
  then consider "i < j" | "j < i" by linarith
  then show False
  proof cases
    case 1
    from assms(2) 1 have "snd (cs ! j) < snd (cs ! i)" by (simp add: first_minimum_def)
    moreover from assms have "snd (cs ! i) \<le> snd (cs ! j)" by (simp add: first_minimum_def)
    ultimately show False by simp
  next
    case 2
    from assms(1) 2 have "snd (cs ! i) < snd (cs ! j)" by (simp add: first_minimum_def)
    moreover from assms have "snd (cs ! j) \<le> snd (cs ! i)" by (simp add: first_minimum_def)
    ultimately show False by simp
  qed
qed

lemma first_minimum_eq_py_min:
  assumes "first_minimum (c # rest) i"
  shows "py_min snd c rest = (c # rest) ! i"
proof -
  from first_minimum_py_min [of c rest] obtain k where
    k: "first_minimum (c # rest) k" "(c # rest) ! k = py_min snd c rest" by blast
  from first_minimum_unique [OF assms k(1)] k(2) show ?thesis by simp
qed

lemma reaches_covers:
  assumes "reaches self target_date pre order post (schedule, machine_states)"
  shows "covers machine_states (machines self)"
proof -
  from assms have
    l: "schedule_loop self target_date (start_state self target_date) pre = Inr (schedule, machine_states)"
    by (simp add: reaches_def)
  have "covers (snd (schedule, machine_states)) (machines self)"
  proof (rule schedule_loop_invariant [where P = "\<lambda>st. covers (snd st) (machines self)", OF l])
    show "covers (snd (start_state self target_date)) (machines self)"
      by (simp add: start_state_def initial_machine_states_covers)
  next
    fix s ord s'
    assume c: "covers (snd s) (machines self)"
      and so: "schedule_order self target_date s ord = Inr s'"
    obtain sch ms sch' ms' where p: "s = (sch, ms)" "s' = (sch', ms')" by (cases s, cases s')
    from covers_step [OF so [unfolded p]] c show "covers (snd s') (machines self)"
      unfolding p by simp
  qed
  then show ?thesis by simp
qed

lemma unscheduled_step:
  assumes "schedule_order self target_date st order = Inr st'"
  shows "set (unscheduled_orders (fst st)) \<subseteq> set (unscheduled_orders (fst st'))"
proof -
  obtain sch ms sch' ms' where p: "st = (sch, ms)" "st' = (sch', ms')" by (cases st, cases st')
  from schedule_order_elim [OF assms [unfolded p]] show ?thesis unfolding p by auto
qed

lemma unscheduled_loop:
  "schedule_loop self target_date st os = Inr st' \<Longrightarrow>
     set (unscheduled_orders (fst st)) \<subseteq> set (unscheduled_orders (fst st'))"
proof (induction os arbitrary: st)
  case Nil
  then show ?case by simp
next
  case (Cons ord os)
  from Cons.prems obtain s1 where s1: "schedule_order self target_date st ord = Inr s1"
    and l: "schedule_loop self target_date s1 os = Inr st'"
    by (auto split: sum.splits)
  from Cons.IH [OF l] unscheduled_step [OF s1] show ?case by blast
qed

text \<open>An order that a step leaves unscheduled is among the unscheduled orders of the result.\<close>

lemma reaches_unscheduled:
  assumes r: "reaches self target_date pre order post (schedule, machine_states)"
    and so: "schedule_order self target_date (schedule, machine_states) order =
               Inr (unschedule schedule order, machine_states)"
    and cs: "create_schedule self target_date = Inr final"
  shows "order \<in> set (unscheduled_orders final)"
proof -
  from r have srt: "sort_orders_for_scheduling self (ProductionScheduler.orders self) = pre @ order # post"
    and l: "schedule_loop self target_date (start_state self target_date) pre = Inr (schedule, machine_states)"
    by (simp_all add: reaches_def)
  from cs obtain st' where
    f: "schedule_loop self target_date (start_state self target_date) (pre @ order # post) = Inr st'"
    and s: "final = fst st'"
    unfolding create_schedule_loop srt by (auto split: sum.splits)
  from f have "schedule_loop self target_date (unschedule schedule order, machine_states) post = Inr st'"
    by (simp add: schedule_loop_append l so)
  from unscheduled_loop [OF this] show ?thesis by (auto simp: s)
qed

lemma round_half_even_close: "\<bar>real_of_int (round_half_even x) - x\<bar> \<le> 1 / 2"
  unfolding round_half_even_def Let_def by (auto simp: abs_if) linarith+

lemma production_delta_close:
  "\<bar>real_of_int (production_delta order m) - production_hours order m * 3600000000\<bar> \<le> 1 / 2"
  using round_half_even_close [of "production_hours order m * 3600000000"]
  by (simp add: production_delta_def US_PER_HOUR_def)

lemma single_scheduler_fields [simp]:
  "machines (single_scheduler ord) = MACHINES"
  "ProductionScheduler.orders (single_scheduler ord) = [ord]"
  "sort_orders_for_scheduling (single_scheduler ord) [ord] = [ord]"
  by (simp_all add: single_scheduler_def add_orders_def ProductionScheduler_init_def
        sort_orders_for_scheduling_def)

lemma default_initial_states:
  "machines self = MACHINES \<Longrightarrow>
     initial_machine_states self 0 =
       [''M1'' \<mapsto> \<lparr>current_time = at_minute 480, current_color = ''CLEAR'', orders_today = []\<rparr>,
        ''M2'' \<mapsto> \<lparr>current_time = at_minute 480, current_color = ''CLEAR'', orders_today = []\<rparr>,
        ''M3'' \<mapsto> \<lparr>current_time = at_minute 480, current_color = ''CLEAR'', orders_today = []\<rparr>]"
  by (simp add: initial_machine_states_def initial_state_def MACHINES_def Machine_init_def
        combine_hour_def WORK_START_HOUR_def at_minute_def US_PER_MINUTE_def US_PER_HOUR_def
        US_PER_DAY_def)

lemmas time_defs = timedelta_minutes_def timedelta_hours_def datetime_add_def valid_timedelta_def
  valid_datetime_def round_half_even_def at_minute_def US_PER_MINUTE_def US_PER_HOUR_def
  US_PER_DAY_def

text \<open>
  An order of a thousand million rolls for the first two machines: its production would take some 23 million
  days, the end of the slot is past the last \<^verbatim>\<open>datetime\<close>, and the addition raises.
\<close>

lemma huge_order_overflow:
  "create_schedule (single_scheduler huge_order) 0 = Inl OverflowError"
  by (simp add: create_schedule_def default_initial_states Let_def)
     (simp add: schedule_order_def get_compatible_machines_def MACHINES_def Machine_init_def
        huge_order_def calculate_setup_time_def SETUP_TIME_MATRIX_def
        estimate_production_time_def combine_hour_def WORK_END_HOUR_def Let_def time_defs)

section \<open>Claims on the selection of the machine\<close>

text \<open>
  Claim C5, as amended. When \<^verbatim>\<open>create_schedule\<close> processes an order that has at least one
  width-compatible machine below its per-cycle item limit, the machine it selects is the first
  one, in iteration order, among those of minimal setup time from the machine's current colour
  to the colour of the order. The slot on that machine has start = cursor time + setup time
  and end = start + production time, the production time being the \<^verbatim>\<open>timedelta\<close> of
  (quantity_rolls * 1000) / speed_m_per_min / 60 hours, that is this number of hours to the
  nearest microsecond. When the speed of the machine is not zero and these times are within
  the ranges of \<^verbatim>\<open>timedelta\<close> and \<^verbatim>\<open>datetime\<close>, the order is committed to that machine
  in that slot if the end is not after the end of the work day, and is left unscheduled, with
  nothing committed, if it is.
\<close>

theorem machine_selection:
  "reaches self target_date pre order post (schedule, machine_states) \<and>
   candidates machine_states order (get_compatible_machines self order) \<noteq> [] \<longrightarrow>
     (\<exists>i m t state.
        first_minimum (candidates machine_states order (get_compatible_machines self order)) i \<and>
        candidates machine_states order (get_compatible_machines self order) ! i = (m, t) \<and>
        m \<in> set (get_compatible_machines self order) \<and>
        machine_states (Machine.machine_id m) = Some state \<and>
        int (length (orders_today state)) < max_items_per_cycle m \<and>
        t = calculate_setup_time (current_color state) (color order) \<and>
        start_time (slot_for order m t state) = current_time state + t * US_PER_MINUTE \<and>
        end_time (slot_for order m t state) =
          start_time (slot_for order m t state) + production_delta order m \<and>
        \<bar>real_of_int (production_delta order m) - production_hours order m * 3600000000\<bar> \<le> 1 / 2 \<and>
        (speed_m_per_min m \<noteq> 0 \<and> representable order m t state \<longrightarrow>
           schedule_order self target_date (schedule, machine_states) order =
             (if end_time (slot_for order m t state) > work_end target_date
              then Inr (unschedule schedule order, machine_states)
              else Inr (add_slot schedule (slot_for order m t state),
                        machine_states(Machine.machine_id m \<mapsto>
                          advance order (end_time (slot_for order m t state)) state)))))"
proof (intro impI, elim conjE)
  let ?cands = "candidates machine_states order (get_compatible_machines self order)"
  assume r: "reaches self target_date pre order post (schedule, machine_states)"
    and ne: "?cands \<noteq> []"
  from ne obtain c rest where cs: "?cands = c # rest" by (cases ?cands) auto
  from first_minimum_py_min [of c rest] obtain i where
    i: "first_minimum ?cands i" "?cands ! i = py_min snd c rest" unfolding cs by blast
  obtain m t where mt: "py_min snd c rest = (m, t)" by (cases "py_min snd c rest")
  have "(m, t) \<in> set ?cands" using py_min_in [of snd c rest] mt cs by simp
  from candidates_in [OF this] obtain state where
    m: "m \<in> set (get_compatible_machines self order)"
    and st: "machine_states (Machine.machine_id m) = Some state"
    and lim: "int (length (orders_today state)) < max_items_per_cycle m"
    and t: "t = calculate_setup_time (current_color state) (color order)"
    by blast
  note sel = schedule_order_selected [OF reaches_covers [OF r] cs mt st, of target_date schedule]
  note d = production_delta_close [of order m]
  have e: "speed_m_per_min m \<noteq> 0 \<and> representable order m t state \<longrightarrow>
           schedule_order self target_date (schedule, machine_states) order =
             (if end_time (slot_for order m t state) > work_end target_date
              then Inr (unschedule schedule order, machine_states)
              else Inr (add_slot schedule (slot_for order m t state),
                        machine_states(Machine.machine_id m \<mapsto>
                          advance order (end_time (slot_for order m t state)) state)))"
    using sel by (simp add: work_end_def)
  show "\<exists>i m t state.
        first_minimum ?cands i \<and> ?cands ! i = (m, t) \<and>
        m \<in> set (get_compatible_machines self order) \<and>
        machine_states (Machine.machine_id m) = Some state \<and>
        int (length (orders_today state)) < max_items_per_cycle m \<and>
        t = calculate_setup_time (current_color state) (color order) \<and>
        start_time (slot_for order m t state) = current_time state + t * US_PER_MINUTE \<and>
        end_time (slot_for order m t state) =
          start_time (slot_for order m t state) + production_delta order m \<and>
        \<bar>real_of_int (production_delta order m) - production_hours order m * 3600000000\<bar> \<le> 1 / 2 \<and>
        (speed_m_per_min m \<noteq> 0 \<and> representable order m t state \<longrightarrow>
           schedule_order self target_date (schedule, machine_states) order =
             (if end_time (slot_for order m t state) > work_end target_date
              then Inr (unschedule schedule order, machine_states)
              else Inr (add_slot schedule (slot_for order m t state),
                        machine_states(Machine.machine_id m \<mapsto>
                          advance order (end_time (slot_for order m t state)) state))))"
    using i(1) i(2) [unfolded mt] m st lim t d e
    by (intro exI [of _ i] exI [of _ m] exI [of _ t] exI [of _ state]) simp
qed

text \<open>
  An order that the first two machines can take, both at setup time 10: the first machine is
  selected, and the slot runs from 8:10 to 9:50.
\<close>

theorem machine_selection_witness:
  "reaches (single_scheduler shared_order) 0 [] shared_order []
     (start_state (single_scheduler shared_order) 0)
   \<and> candidates (snd (start_state (single_scheduler shared_order) 0)) shared_order
       (get_compatible_machines (single_scheduler shared_order) shared_order) =
       [(MACHINES ! 0, 10), (MACHINES ! 1, 10)]
   \<and> first_minimum [(MACHINES ! 0, 10), (MACHINES ! 1, 10)] 0
   \<and> snd (start_state (single_scheduler shared_order) 0) (Machine.machine_id (MACHINES ! 0)) =
       Some \<lparr>current_time = at_minute 480, current_color = ''CLEAR'', orders_today = []\<rparr>
   \<and> speed_m_per_min (MACHINES ! 0) = 30
   \<and> representable shared_order (MACHINES ! 0) 10
       \<lparr>current_time = at_minute 480, current_color = ''CLEAR'', orders_today = []\<rparr>
   \<and> slot_for shared_order (MACHINES ! 0) 10
       \<lparr>current_time = at_minute 480, current_color = ''CLEAR'', orders_today = []\<rparr> =
       \<lparr> ScheduleSlot.machine_id = ''M1'', ScheduleSlot.orders = [shared_order],
         start_time = at_minute 490, end_time = at_minute 590, setup_time_min = 10 \<rparr>
   \<and> work_end 0 = at_minute 1200
   \<and> schedule_order (single_scheduler shared_order) 0
          (start_state (single_scheduler shared_order) 0) shared_order =
       Inr (add_slot (fst (start_state (single_scheduler shared_order) 0))
              \<lparr> ScheduleSlot.machine_id = ''M1'', ScheduleSlot.orders = [shared_order],
                start_time = at_minute 490, end_time = at_minute 590, setup_time_min = 10 \<rparr>,
            (snd (start_state (single_scheduler shared_order) 0))
              (''M1'' \<mapsto> advance shared_order (at_minute 590)
                 \<lparr>current_time = at_minute 480, current_color = ''CLEAR'', orders_today = []\<rparr>))
   \<and> create_schedule (single_scheduler shared_order) 0 =
       Inr \<lparr> Schedule.date = 0,
             slots = [\<lparr> ScheduleSlot.machine_id = ''M1'', ScheduleSlot.orders = [shared_order],
                        start_time = at_minute 490, end_time = at_minute 590,
                        setup_time_min = 10 \<rparr>],
             unscheduled_orders = [] \<rparr>"
proof -
  let ?T = "single_scheduler shared_order"
  let ?init = "\<lparr>current_time = at_minute 480, current_color = ''CLEAR'', orders_today = []\<rparr>"
  let ?cands = "[(MACHINES ! 0, 10 :: int), (MACHINES ! 1, 10)]"
  let ?slot = "\<lparr> ScheduleSlot.machine_id = ''M1'', ScheduleSlot.orders = [shared_order],
         start_time = at_minute 490, end_time = at_minute 590, setup_time_min = 10 \<rparr>"
  have r: "reaches ?T 0 [] shared_order [] (start_state ?T 0)"
    by (simp add: reaches_def)
  have c: "candidates (snd (start_state ?T 0)) shared_order
             (get_compatible_machines ?T shared_order) = ?cands"
    by (simp add: start_state_def default_initial_states)
       (simp add: candidates_def get_compatible_machines_def MACHINES_def Machine_init_def
          shared_order_def calculate_setup_time_def SETUP_TIME_MATRIX_def)
  have f: "first_minimum ?cands 0"
    by (simp add: first_minimum_def)
  have k: "Machine.machine_id (MACHINES ! 0) = ''M1''" "speed_m_per_min (MACHINES ! 0) = 30"
    by (simp_all add: MACHINES_def Machine_init_def)
  have i0: "snd (start_state ?T 0) (Machine.machine_id (MACHINES ! 0)) = Some ?init"
    by (simp add: start_state_def default_initial_states k)
  have sl: "slot_for shared_order (MACHINES ! 0) 10 ?init = ?slot"
    by (simp add: slot_for_def production_delta_def production_hours_def shared_order_def k
          time_defs)
  have rp: "representable shared_order (MACHINES ! 0) 10 ?init"
    unfolding representable_def sl
    by (simp add: production_delta_def production_hours_def shared_order_def k time_defs)
  have w: "work_end 0 = at_minute 1200"
    by (simp add: work_end_def combine_hour_def WORK_END_HOUR_def time_defs)
  have e: "create_schedule ?T 0 =
       Inr \<lparr> Schedule.date = 0, slots = [?slot], unscheduled_orders = [] \<rparr>"
    by (simp add: create_schedule_def default_initial_states Let_def)
       (simp add: schedule_order_def get_compatible_machines_def MACHINES_def Machine_init_def
          shared_order_def calculate_setup_time_def SETUP_TIME_MATRIX_def
          estimate_production_time_def combine_hour_def WORK_END_HOUR_def add_slot_def Let_def
          time_defs)
  from machine_selection [of ?T 0 "[]" shared_order "[]"
      "fst (start_state ?T 0)" "snd (start_state ?T 0)"] r c
  obtain i m t state where
    fi: "first_minimum ?cands i" and ci: "?cands ! i = (m, t)"
    and si: "snd (start_state ?T 0) (Machine.machine_id m) = Some state"
    and so: "speed_m_per_min m \<noteq> 0 \<and> representable shared_order m t state \<longrightarrow>
        schedule_order ?T 0 (fst (start_state ?T 0), snd (start_state ?T 0)) shared_order =
          (if end_time (slot_for shared_order m t state) > work_end 0
           then Inr (unschedule (fst (start_state ?T 0)) shared_order, snd (start_state ?T 0))
           else Inr (add_slot (fst (start_state ?T 0)) (slot_for shared_order m t state),
                     (snd (start_state ?T 0))
                       (Machine.machine_id m \<mapsto>
                          advance shared_order (end_time (slot_for shared_order m t state)) state)))"
    by (simp only: prod.collapse) blast
  from first_minimum_unique [OF fi f] have "i = 0" .
  with ci have mt: "m = MACHINES ! 0" "t = 10" by simp_all
  from si i0 have stt: "state = ?init" unfolding mt by simp
  from so [unfolded mt stt sl] rp k(2)
  have "schedule_order ?T 0 (start_state ?T 0) shared_order =
       Inr (add_slot (fst (start_state ?T 0)) ?slot,
            (snd (start_state ?T 0))(''M1'' \<mapsto> advance shared_order (at_minute 590) ?init))"
    by (simp add: w k at_minute_def US_PER_MINUTE_def)
  with r c f i0 k(2) rp sl w e show ?thesis by blast
qed

text \<open>
  Claim C5 as stated fails: \<open>long_order\<close> alone has a width-compatible machine below its
  limit (the third machine, at setup time 10), but its production would end after 20:00 and it
  is committed to no machine.
\<close>

theorem machine_selection_counterexample:
  "candidates (snd (start_state (single_scheduler long_order) 0)) long_order
     (get_compatible_machines (single_scheduler long_order) long_order) = [(MACHINES ! 2, 10)]
   \<and> create_schedule (single_scheduler long_order) 0 =
       Inr \<lparr> Schedule.date = 0, slots = [], unscheduled_orders = [long_order] \<rparr>"
proof -
  let ?T = "single_scheduler long_order"
  have c: "candidates (snd (start_state ?T 0)) long_order
             (get_compatible_machines ?T long_order) = [(MACHINES ! 2, 10)]"
    by (simp add: start_state_def default_initial_states)
       (simp add: candidates_def get_compatible_machines_def MACHINES_def Machine_init_def
          long_order_def calculate_setup_time_def SETUP_TIME_MATRIX_def)
  have e: "create_schedule ?T 0 =
       Inr \<lparr> Schedule.date = 0, slots = [], unscheduled_orders = [long_order] \<rparr>"
    by (simp add: create_schedule_def default_initial_states Let_def)
       (simp add: schedule_order_def get_compatible_machines_def MACHINES_def Machine_init_def
          long_order_def calculate_setup_time_def SETUP_TIME_MATRIX_def
          estimate_production_time_def combine_hour_def WORK_END_HOUR_def unschedule_def Let_def
          time_defs)
  from c e show ?thesis by simp
qed

section \<open>Claims on the feasibility shortfalls\<close>

lemma all_at_limit_no_candidates:
  assumes "\<forall>m \<in> set cs. \<exists>state. machine_states (Machine.machine_id m) = Some state \<and>
             max_items_per_cycle m \<le> int (length (orders_today state))"
  shows "candidates machine_states order cs = []"
  using assms by (induction cs) (auto simp: candidates_Cons)

lemma scenario_compatible:
  assumes "machines self = MACHINES" and "width_mm order = 650"
  shows "get_compatible_machines self order = [MACHINES ! 1]"
  using assms by (simp add: get_compatible_machines_def MACHINES_def Machine_init_def)

lemma scenario_at_cap:
  assumes "machines self = MACHINES" and "width_mm order = 650"
    and "machine_states ''M2'' = Some state" and "4 \<le> length (orders_today state)"
  shows "schedule_order self target_date (schedule, machine_states) order =
           Inr (unschedule schedule order, machine_states)"
  using assms(3,4)
  by (simp add: schedule_order_def scenario_compatible [OF assms(1,2)] Let_def)
     (simp add: MACHINES_def Machine_init_def)

text \<open>
  Claim C7, as amended. When \<^verbatim>\<open>create_schedule\<close> processes an order that has no
  width-compatible available machine, or whose compatible machines are all at their per-cycle
  item limit, or whose end time on the selected machine would be after the end of the work
  day (the speed of that machine not being zero, and the times of the slot being within the
  ranges of \<^verbatim>\<open>timedelta\<close> and \<^verbatim>\<open>datetime\<close>), the step raises no error, appends the order to
  the unscheduled orders and changes nothing else; the order is then among the unscheduled
  orders of every schedule returned. The schedule records no reason; the formatter
  \<^verbatim>\<open>format_schedule_json\<close> gives every unscheduled order the same tag
  \<^verbatim>\<open>capacity_exceeded\<close>, whatever the cause. With the default machines an order of width
  650 mm is compatible with the second machine only, and is left unscheduled when that machine
  already has four orders.
\<close>

theorem shortfalls_unscheduled:
  "(reaches self target_date pre order post (schedule, machine_states) \<longrightarrow>
      (get_compatible_machines self order = [] \<longrightarrow>
         schedule_order self target_date (schedule, machine_states) order =
           Inr (unschedule schedule order, machine_states))
      \<and> ((\<forall>m \<in> set (get_compatible_machines self order).
             \<exists>state. machine_states (Machine.machine_id m) = Some state \<and>
               max_items_per_cycle m \<le> int (length (orders_today state))) \<longrightarrow>
         schedule_order self target_date (schedule, machine_states) order =
           Inr (unschedule schedule order, machine_states))
      \<and> (\<forall>i m t state.
            first_minimum (candidates machine_states order (get_compatible_machines self order)) i \<and>
            candidates machine_states order (get_compatible_machines self order) ! i = (m, t) \<and>
            machine_states (Machine.machine_id m) = Some state \<and>
            speed_m_per_min m \<noteq> 0 \<and>
            representable order m t state \<and>
            end_time (slot_for order m t state) > work_end target_date \<longrightarrow>
         schedule_order self target_date (schedule, machine_states) order =
           Inr (unschedule schedule order, machine_states))
      \<and> (schedule_order self target_date (schedule, machine_states) order =
           Inr (unschedule schedule order, machine_states) \<longrightarrow>
         (\<forall>final. create_schedule self target_date = Inr final \<longrightarrow>
            order \<in> set (unscheduled_orders final) \<and>
            (order_id order, product_code order, ''capacity_exceeded'')
              \<in> set (format_schedule_json_unscheduled final))))
   \<and> (\<forall>entry \<in> set (format_schedule_json_unscheduled result).
         snd (snd entry) = ''capacity_exceeded'')
   \<and> (machines self = MACHINES \<and> width_mm order = 650 \<longrightarrow>
        get_compatible_machines self order = [MACHINES ! 1] \<and>
        (\<forall>sch states state.
           states ''M2'' = Some state \<and> 4 \<le> length (orders_today state) \<longrightarrow>
           schedule_order self target_date (sch, states) order =
             Inr (unschedule sch order, states)))"
proof -
  let ?step = "schedule_order self target_date (schedule, machine_states) order"
  let ?cands = "candidates machine_states order (get_compatible_machines self order)"
  let ?skip = "Inr (unschedule schedule order, machine_states)"
  have A: "(get_compatible_machines self order = [] \<longrightarrow> ?step = ?skip)
      \<and> ((\<forall>m \<in> set (get_compatible_machines self order).
             \<exists>state. machine_states (Machine.machine_id m) = Some state \<and>
               max_items_per_cycle m \<le> int (length (orders_today state))) \<longrightarrow> ?step = ?skip)
      \<and> (\<forall>i m t state.
            first_minimum ?cands i \<and> ?cands ! i = (m, t) \<and>
            machine_states (Machine.machine_id m) = Some state \<and>
            speed_m_per_min m \<noteq> 0 \<and>
            representable order m t state \<and>
            end_time (slot_for order m t state) > work_end target_date \<longrightarrow> ?step = ?skip)
      \<and> (?step = ?skip \<longrightarrow>
         (\<forall>final. create_schedule self target_date = Inr final \<longrightarrow>
            order \<in> set (unscheduled_orders final) \<and>
            (order_id order, product_code order, ''capacity_exceeded'')
              \<in> set (format_schedule_json_unscheduled final)))"
    if r: "reaches self target_date pre order post (schedule, machine_states)"
  proof -
    note cv = reaches_covers [OF r]
    have 1: "?step = ?skip" if "get_compatible_machines self order = []"
      using that by (simp add: schedule_order_def Let_def)
    have 2: "?step = ?skip"
      if "\<forall>m \<in> set (get_compatible_machines self order).
             \<exists>state. machine_states (Machine.machine_id m) = Some state \<and>
               max_items_per_cycle m \<le> int (length (orders_today state))"
      using schedule_order_unscheduled [OF cv all_at_limit_no_candidates [OF that]] .
    have 3: "?step = ?skip"
      if f: "first_minimum ?cands i" and c: "?cands ! i = (m, t)"
        and st: "machine_states (Machine.machine_id m) = Some state"
        and sp: "speed_m_per_min m \<noteq> 0"
        and rp: "representable order m t state"
        and late: "end_time (slot_for order m t state) > work_end target_date"
      for i m t state
    proof -
      from f have "?cands \<noteq> []" by (auto simp: first_minimum_def)
      then obtain c0 rest where cs: "?cands = c0 # rest" by (cases ?cands) auto
      have "py_min snd c0 rest = (m, t)"
        using first_minimum_eq_py_min [OF f [unfolded cs]] c cs by simp
      from schedule_order_selected [OF cv cs this st, of target_date schedule] sp rp late
      show ?thesis by (simp add: work_end_def)
    qed
    have 4: "order \<in> set (unscheduled_orders final) \<and>
            (order_id order, product_code order, ''capacity_exceeded'')
              \<in> set (format_schedule_json_unscheduled final)"
      if "?step = ?skip" and "create_schedule self target_date = Inr final" for final
      using reaches_unscheduled [OF r that]
      by (auto simp: format_schedule_json_unscheduled_def)
    from 1 2 3 4 show ?thesis by blast
  qed
  have C: "\<forall>entry \<in> set (format_schedule_json_unscheduled result).
         snd (snd entry) = ''capacity_exceeded''"
    by (auto simp: format_schedule_json_unscheduled_def)
  have D: "machines self = MACHINES \<and> width_mm order = 650 \<longrightarrow>
        get_compatible_machines self order = [MACHINES ! 1] \<and>
        (\<forall>sch states state.
           states ''M2'' = Some state \<and> 4 \<le> length (orders_today state) \<longrightarrow>
           schedule_order self target_date (sch, states) order =
             Inr (unschedule sch order, states))"
    using scenario_compatible scenario_at_cap by blast
  from A C D show ?thesis by blast
qed


lemma scenario_prefix:
  "schedule_loop scenario_scheduler 0 (start_state scenario_scheduler 0)
     [scenario_order ''O1'', scenario_order ''O2'', scenario_order ''O3'', scenario_order ''O4''] =
   Inr (\<lparr> Schedule.date = 0,
          slots = [scenario_slot ''O1'' 490, scenario_slot ''O2'' 600,
                   scenario_slot ''O3'' 710, scenario_slot ''O4'' 820],
          unscheduled_orders = [] \<rparr>,
        (initial_machine_states scenario_scheduler 0)
          (''M2'' \<mapsto> \<lparr> current_time = at_minute 920, current_color = ''CLEAR'',
                      orders_today = [''O1'', ''O2'', ''O3'', ''O4''] \<rparr>))"
proof -
  have m: "machines scenario_scheduler = MACHINES"
    by (simp add: scenario_scheduler_def add_orders_def ProductionScheduler_init_def)
  show ?thesis
    unfolding start_state_def default_initial_states [OF m]
    by (simp add: schedule_order_def get_compatible_machines_def m MACHINES_def
        Machine_init_def combine_hour_def WORK_END_HOUR_def calculate_setup_time_def
        SETUP_TIME_MATRIX_def estimate_production_time_def unschedule_def add_slot_def
        scenario_slot_def scenario_order_def Let_def time_defs)
qed


lemma scenario_scheduler_fields [simp]:
  "machines scenario_scheduler = MACHINES"
  "ProductionScheduler.orders scenario_scheduler = scenario_orders"
  by (simp_all add: scenario_scheduler_def add_orders_def ProductionScheduler_init_def)

text \<open>
  The three shortfalls: \<open>narrow_order\<close> alone has no compatible machine; the fifth order of the
  scenario finds the second machine with four orders; \<open>long_order\<close> alone would end at minute
  1490, after minute 1200. Each is left unscheduled, and tagged \<^verbatim>\<open>capacity_exceeded\<close>.
\<close>

theorem shortfalls_unscheduled_witness:
  "reaches (single_scheduler narrow_order) 0 [] narrow_order []
     (start_state (single_scheduler narrow_order) 0)
   \<and> get_compatible_machines (single_scheduler narrow_order) narrow_order = []
   \<and> schedule_order (single_scheduler narrow_order) 0
        (start_state (single_scheduler narrow_order) 0) narrow_order =
       Inr (unschedule (fst (start_state (single_scheduler narrow_order) 0)) narrow_order,
            snd (start_state (single_scheduler narrow_order) 0))
   \<and> create_schedule (single_scheduler narrow_order) 0 =
       Inr \<lparr> Schedule.date = 0, slots = [], unscheduled_orders = [narrow_order] \<rparr>
   \<and> (order_id narrow_order, product_code narrow_order, ''capacity_exceeded'')
       \<in> set (format_schedule_json_unscheduled
                \<lparr> Schedule.date = 0, slots = [], unscheduled_orders = [narrow_order] \<rparr>)
   \<and> reaches scenario_scheduler 0
       [scenario_order ''O1'', scenario_order ''O2'', scenario_order ''O3'', scenario_order ''O4'']
       (scenario_order ''O5'') [narrow_order, long_order]
       (\<lparr> Schedule.date = 0,
          slots = [scenario_slot ''O1'' 490, scenario_slot ''O2'' 600,
                   scenario_slot ''O3'' 710, scenario_slot ''O4'' 820],
          unscheduled_orders = [] \<rparr>,
        (initial_machine_states scenario_scheduler 0)
          (''M2'' \<mapsto> \<lparr> current_time = at_minute 920, current_color = ''CLEAR'',
                      orders_today = [''O1'', ''O2'', ''O3'', ''O4''] \<rparr>))
   \<and> get_compatible_machines scenario_scheduler (scenario_order ''O5'') = [MACHINES ! 1]
   \<and> max_items_per_cycle (MACHINES ! 1) = 4
   \<and> schedule_order scenario_scheduler 0
       (\<lparr> Schedule.date = 0,
          slots = [scenario_slot ''O1'' 490, scenario_slot ''O2'' 600,
                   scenario_slot ''O3'' 710, scenario_slot ''O4'' 820],
          unscheduled_orders = [] \<rparr>,
        (initial_machine_states scenario_scheduler 0)
          (''M2'' \<mapsto> \<lparr> current_time = at_minute 920, current_color = ''CLEAR'',
                      orders_today = [''O1'', ''O2'', ''O3'', ''O4''] \<rparr>))
       (scenario_order ''O5'') =
       Inr (unschedule
              \<lparr> Schedule.date = 0,
                slots = [scenario_slot ''O1'' 490, scenario_slot ''O2'' 600,
                         scenario_slot ''O3'' 710, scenario_slot ''O4'' 820],
                unscheduled_orders = [] \<rparr> (scenario_order ''O5''),
            (initial_machine_states scenario_scheduler 0)
              (''M2'' \<mapsto> \<lparr> current_time = at_minute 920, current_color = ''CLEAR'',
                          orders_today = [''O1'', ''O2'', ''O3'', ''O4''] \<rparr>))
   \<and> reaches (single_scheduler long_order) 0 [] long_order []
       (start_state (single_scheduler long_order) 0)
   \<and> first_minimum [(MACHINES ! 2, 10)] 0
   \<and> speed_m_per_min (MACHINES ! 2) = 30
   \<and> representable long_order (MACHINES ! 2) 10
         \<lparr> current_time = at_minute 480, current_color = ''CLEAR'', orders_today = [] \<rparr>
   \<and> end_time (slot_for long_order (MACHINES ! 2) 10
         \<lparr> current_time = at_minute 480, current_color = ''CLEAR'', orders_today = [] \<rparr>) =
       at_minute 1490
   \<and> work_end 0 = at_minute 1200
   \<and> schedule_order (single_scheduler long_order) 0
        (start_state (single_scheduler long_order) 0) long_order =
       Inr (unschedule (fst (start_state (single_scheduler long_order) 0)) long_order,
            snd (start_state (single_scheduler long_order) 0))
   \<and> create_schedule scenario_scheduler 0 =
       Inr \<lparr> Schedule.date = 0,
             slots = [scenario_slot ''O1'' 490, scenario_slot ''O2'' 600,
                      scenario_slot ''O3'' 710, scenario_slot ''O4'' 820],
             unscheduled_orders = [scenario_order ''O5'', narrow_order, long_order] \<rparr>"
proof -
  let ?N = "single_scheduler narrow_order"
  let ?L = "single_scheduler long_order"
  let ?S4 = "\<lparr> Schedule.date = 0,
          slots = [scenario_slot ''O1'' 490, scenario_slot ''O2'' 600,
                   scenario_slot ''O3'' 710, scenario_slot ''O4'' 820],
          unscheduled_orders = [] \<rparr>"
  let ?st = "\<lparr> current_time = at_minute 920, current_color = ''CLEAR'',
                      orders_today = [''O1'', ''O2'', ''O3'', ''O4''] \<rparr>"
  let ?M4 = "(initial_machine_states scenario_scheduler 0)(''M2'' \<mapsto> ?st)"
  let ?init = "\<lparr> current_time = at_minute 480, current_color = ''CLEAR'', orders_today = [] \<rparr>"
  let ?NF = "\<lparr> Schedule.date = 0, slots = [], unscheduled_orders = [narrow_order] \<rparr>"
  have rN: "reaches ?N 0 [] narrow_order [] (fst (start_state ?N 0), snd (start_state ?N 0))"
    by (simp add: reaches_def)
  have cN: "get_compatible_machines ?N narrow_order = []"
    by (simp add: get_compatible_machines_def MACHINES_def Machine_init_def narrow_order_def)
  have fN: "create_schedule ?N 0 = Inr ?NF"
    by (simp add: create_schedule_def cN schedule_order_def unschedule_def Let_def)
  note tN = shortfalls_unscheduled [of ?N 0 "[]" narrow_order "[]"
      "fst (start_state ?N 0)" "snd (start_state ?N 0)" ?NF]
  from tN rN cN have sN: "schedule_order ?N 0 (fst (start_state ?N 0), snd (start_state ?N 0))
      narrow_order = Inr (unschedule (fst (start_state ?N 0)) narrow_order, snd (start_state ?N 0))"
    by blast
  from tN rN sN fN have gN: "(order_id narrow_order, product_code narrow_order, ''capacity_exceeded'')
       \<in> set (format_schedule_json_unscheduled ?NF)"
    by blast
  have r5: "reaches scenario_scheduler 0
       [scenario_order ''O1'', scenario_order ''O2'', scenario_order ''O3'', scenario_order ''O4'']
       (scenario_order ''O5'') [narrow_order, long_order] (?S4, ?M4)"
    unfolding reaches_def scenario_prefix scenario_sorted by (simp add: scenario_orders_def)
  have c5: "get_compatible_machines scenario_scheduler (scenario_order ''O5'') = [MACHINES ! 1]"
    by (simp add: scenario_compatible scenario_order_def)
  have k5: "max_items_per_cycle (MACHINES ! 1) = 4" "Machine.machine_id (MACHINES ! 1) = ''M2''"
    by (simp_all add: MACHINES_def Machine_init_def)
  have "\<forall>m \<in> set (get_compatible_machines scenario_scheduler (scenario_order ''O5'')).
             \<exists>state. ?M4 (Machine.machine_id m) = Some state \<and>
               max_items_per_cycle m \<le> int (length (orders_today state))"
    unfolding c5 by (simp add: MACHINES_def Machine_init_def)
  with shortfalls_unscheduled [of scenario_scheduler 0
      "[scenario_order ''O1'', scenario_order ''O2'', scenario_order ''O3'', scenario_order ''O4'']"
      "scenario_order ''O5''" "[narrow_order, long_order]" ?S4 ?M4 ?NF] r5
  have s5: "schedule_order scenario_scheduler 0 (?S4, ?M4) (scenario_order ''O5'') =
      Inr (unschedule ?S4 (scenario_order ''O5''), ?M4)"
    by blast
  have rL: "reaches ?L 0 [] long_order [] (fst (start_state ?L 0), snd (start_state ?L 0))"
    by (simp add: reaches_def)
  have cL: "candidates (snd (start_state ?L 0)) long_order (get_compatible_machines ?L long_order)
      = [(MACHINES ! 2, 10)]"
    by (simp add: start_state_def default_initial_states)
       (simp add: candidates_def get_compatible_machines_def MACHINES_def Machine_init_def
          long_order_def calculate_setup_time_def SETUP_TIME_MATRIX_def)
  have fL: "first_minimum [(MACHINES ! 2, 10)] 0" by (simp add: first_minimum_def)
  have kL: "speed_m_per_min (MACHINES ! 2) = 30" "Machine.machine_id (MACHINES ! 2) = ''M3''"
    by (simp_all add: MACHINES_def Machine_init_def)
  have iL: "snd (start_state ?L 0) (Machine.machine_id (MACHINES ! 2)) = Some ?init"
    by (simp add: start_state_def default_initial_states kL)
  have eL: "end_time (slot_for long_order (MACHINES ! 2) 10 ?init) = at_minute 1490"
    by (simp add: production_delta_def production_hours_def long_order_def kL time_defs)
  have pL: "representable long_order (MACHINES ! 2) 10 ?init"
    unfolding representable_def
    by (simp add: production_delta_def production_hours_def long_order_def kL time_defs)
  have w: "work_end 0 = at_minute 1200"
    by (simp add: work_end_def combine_hour_def WORK_END_HOUR_def time_defs)
  have lt: "at_minute 1200 < at_minute 1490"
    by (simp add: at_minute_def US_PER_MINUTE_def)
  from shortfalls_unscheduled [of ?L 0 "[]" long_order "[]"
      "fst (start_state ?L 0)" "snd (start_state ?L 0)" ?NF] rL
  have "\<forall>i m t state.
            first_minimum (candidates (snd (start_state ?L 0)) long_order
               (get_compatible_machines ?L long_order)) i \<and>
            candidates (snd (start_state ?L 0)) long_order
               (get_compatible_machines ?L long_order) ! i = (m, t) \<and>
            snd (start_state ?L 0) (Machine.machine_id m) = Some state \<and>
            speed_m_per_min m \<noteq> 0 \<and>
            representable long_order m t state \<and>
            end_time (slot_for long_order m t state) > work_end 0 \<longrightarrow>
         schedule_order ?L 0 (fst (start_state ?L 0), snd (start_state ?L 0)) long_order =
           Inr (unschedule (fst (start_state ?L 0)) long_order, snd (start_state ?L 0))"
    by blast
  from this [rule_format, of 0 "MACHINES ! 2" 10 ?init] fL kL(1) iL pL eL w lt
  have sL: "schedule_order ?L 0 (fst (start_state ?L 0), snd (start_state ?L 0)) long_order =
           Inr (unschedule (fst (start_state ?L 0)) long_order, snd (start_state ?L 0))"
    unfolding cL by simp
  show ?thesis
    using rN cN sN fN gN r5 c5 k5(1) s5 rL fL kL(1) pL eL w sL scenario_schedule
    by (simp only: prod.collapse)
qed

text \<open>
  Claim C7 as stated fails on the reason tag. In the schedule of the scenario the fifth order
  is unscheduled because its only compatible machine is at its limit, \<open>narrow_order\<close> because
  no machine is compatible, \<open>long_order\<close> because it would end after the work day: the schedule
  holds the three orders and nothing else about them, and the formatter tags all three
  \<^verbatim>\<open>capacity_exceeded\<close>.
\<close>

theorem shortfalls_reason_counterexample:
  "create_schedule scenario_scheduler 0 =
     Inr \<lparr> Schedule.date = 0,
           slots = [scenario_slot ''O1'' 490, scenario_slot ''O2'' 600,
                    scenario_slot ''O3'' 710, scenario_slot ''O4'' 820],
           unscheduled_orders = [scenario_order ''O5'', narrow_order, long_order] \<rparr>
   \<and> get_compatible_machines scenario_scheduler (scenario_order ''O5'') = [MACHINES ! 1]
   \<and> get_compatible_machines scenario_scheduler narrow_order = []
   \<and> get_compatible_machines scenario_scheduler long_order = [MACHINES ! 2]
   \<and> format_schedule_json_unscheduled
        \<lparr> Schedule.date = 0,
          slots = [scenario_slot ''O1'' 490, scenario_slot ''O2'' 600,
                   scenario_slot ''O3'' 710, scenario_slot ''O4'' 820],
          unscheduled_orders = [scenario_order ''O5'', narrow_order, long_order] \<rparr> =
       [(''O5'', ''PE-FILM-650'', ''capacity_exceeded''),
        (''N1'', ''PE-FILM-100'', ''capacity_exceeded''),
        (''L1'', ''PE-FILM-1000'', ''capacity_exceeded'')]"
  using scenario_schedule
  by (simp add: get_compatible_machines_def MACHINES_def Machine_init_def
        format_schedule_json_unscheduled_def scenario_order_def narrow_order_def long_order_def)

end
